theory Spec2Isabelle
  imports Main "HOL-Library.Word"
begin

unbundle bit_operations_syntax

section \<open>The VFS helpers of the SMB server (fs/cifssrv/vfs.c)\<close>

text \<open>
  The helpers translate requests on session-relative file identifiers into calls
  of the kernel VFS. Every helper is embedded as a function that takes the
  filesystem state, returns the C return value, the values of its out-parameters
  and the new filesystem state, and lists, in program order, the calls it made
  to its collaborators (the kernel VFS, the fid table, the oplock module).
  The collaborators are the fields of an environment record: a theorem about a
  helper holds for every behaviour of the kernel.
\<close>

subsection \<open>Machine integers and constants of the kernel headers\<close>

text \<open>\<open>int\<close> is 32 bits wide, \<open>loff_t\<close> and \<open>ssize_t\<close> are 64 bits wide and signed.\<close>

definition s32 :: "int \<Rightarrow> int" where
  "s32 x = (x + 2 ^ 31) mod 2 ^ 32 - 2 ^ 31"

definition loff :: "int \<Rightarrow> int" where
  "loff x = (x + 2 ^ 63) mod 2 ^ 64 - 2 ^ 63"

definition ENOENT :: int where "ENOENT = 2"
definition EAGAIN :: int where "EAGAIN = 11"
definition ENOMEM :: int where "ENOMEM = 12"
definition EISDIR :: int where "EISDIR = 21"
definition EINVAL :: int where "EINVAL = 22"
definition ENOTEMPTY :: int where "ENOTEMPTY = 39"

type_synonym umode_t = "16 word"
type_synonym byte = "8 word"

text \<open>Mode bits (octal 0170000, 0040000, 0120000, 04000, 02000, 07777, 00010).\<close>

definition S_IFMT :: umode_t where "S_IFMT = 0xF000"
definition S_IFDIR :: umode_t where "S_IFDIR = 0x4000"
definition S_IFLNK :: umode_t where "S_IFLNK = 0xA000"
definition S_ISUID :: umode_t where "S_ISUID = 0x800"
definition S_ISGID :: umode_t where "S_ISGID = 0x400"
definition S_IALLUGO :: umode_t where "S_IALLUGO = 0xFFF"
definition S_IXGRP :: umode_t where "S_IXGRP = 0x8"

definition S_ISDIR :: "umode_t \<Rightarrow> bool" where
  "S_ISDIR m = (m AND S_IFMT = S_IFDIR)"

definition S_ISLNK :: "umode_t \<Rightarrow> bool" where
  "S_ISLNK m = (m AND S_IFMT = S_IFLNK)"

text \<open>Bits of \<open>ia_valid\<close>: \<open>1 << 0\<close>, \<open>1 << 1\<close>, \<open>1 << 2\<close>, \<open>1 << 3\<close>, \<open>1 << 6\<close>,
  \<open>1 << 11\<close>, \<open>1 << 12\<close>, \<open>1 << 14\<close>.\<close>

definition ATTR_MODE :: "32 word" where "ATTR_MODE = 0x1"
definition ATTR_UID :: "32 word" where "ATTR_UID = 0x2"
definition ATTR_GID :: "32 word" where "ATTR_GID = 0x4"
definition ATTR_SIZE :: "32 word" where "ATTR_SIZE = 0x8"
definition ATTR_CTIME :: "32 word" where "ATTR_CTIME = 0x40"
definition ATTR_KILL_SUID :: "32 word" where "ATTR_KILL_SUID = 0x800"
definition ATTR_KILL_SGID :: "32 word" where "ATTR_KILL_SGID = 0x1000"
definition ATTR_KILL_PRIV :: "32 word" where "ATTR_KILL_PRIV = 0x4000"

definition LOOKUP_PARENT :: nat where "LOOKUP_PARENT = 0x10"

subsection \<open>Kernel objects\<close>

text \<open>
  Pointers to \<open>struct dentry\<close> and \<open>struct file\<close> are identities. An inode is read
  through its dentry; a negative dentry has none (\<open>d_inode\<close> is \<open>NULL\<close>).
\<close>

type_synonym dentry = nat
type_synonym file_t = nat

datatype lock_type = F_RDLCK | F_WRLCK | F_UNLCK

record file_lock =
  fl_owner :: file_t
  fl_pid :: nat
  fl_file :: file_t
  fl_flags :: nat
  fl_type :: lock_type
  fl_start :: int
  fl_end :: int

definition FL_POSIX :: nat where "FL_POSIX = 1"
definition FL_ACCESS :: nat where "FL_ACCESS = 8"

record inode =
  i_ino :: nat
  i_mode :: umode_t
  i_size :: int
  i_uid :: "32 word"
  i_gid :: "32 word"
  i_flock :: "file_lock list"

record iattr =
  ia_valid :: "32 word"
  ia_mode :: umode_t
  ia_uid :: "32 word"
  ia_gid :: "32 word"
  ia_size :: int

record path =
  p_mnt :: nat
  p_dentry :: dentry

record cifssrv_file =
  filp :: file_t

subsection \<open>Collaborators\<close>

text \<open>
  \<open>'k\<close> is the state of the filesystem (name space, contents, metadata). Only the
  mutating primitives return a new state. Lookups, reference counts and locks leave
  it alone; what a helper acquires and releases is read off its list of calls.
  \<open>posix_lock_file\<close> is only ever called with \<open>FL_ACCESS\<close>, where it probes for a
  conflict and records nothing. \<open>kern_path\<close>, \<open>lookup_one_len\<close> return an error
  pointer (\<open>Inl\<close> of the negative errno) or the object; \<open>lock_rename\<close> returns the
  trap dentry, or \<open>NULL\<close>.
\<close>

record 'k env =
  get_id_from_fidtable :: "nat \<Rightarrow> nat \<Rightarrow> cifssrv_file option"
  oplocks_enable :: bool
  f_path :: "file_t \<Rightarrow> path"
  d_parent :: "dentry \<Rightarrow> dentry"
  d_inode :: "'k \<Rightarrow> dentry \<Rightarrow> inode option"
  current_tgid :: nat
  posix_lock_file :: "'k \<Rightarrow> file_t \<Rightarrow> file_lock \<Rightarrow> int"
  vmalloc :: "nat \<Rightarrow> bool"
  vfs_read :: "'k \<Rightarrow> file_t \<Rightarrow> nat \<Rightarrow> int \<Rightarrow> int \<times> byte list \<times> int \<times> 'k"
  vfs_write :: "'k \<Rightarrow> file_t \<Rightarrow> byte list \<Rightarrow> nat \<Rightarrow> int \<Rightarrow> int \<times> int \<times> 'k"
  vfs_fsync_range :: "'k \<Rightarrow> file_t \<Rightarrow> int \<Rightarrow> int \<Rightarrow> int \<times> 'k"
  kern_path :: "'k \<Rightarrow> string \<Rightarrow> nat \<Rightarrow> int + path"
  lock_rename :: "'k \<Rightarrow> dentry \<Rightarrow> dentry \<Rightarrow> dentry option"
  lookup_one_len :: "'k \<Rightarrow> string \<Rightarrow> dentry \<Rightarrow> nat \<Rightarrow> int + dentry"
  vfs_rename :: "'k \<Rightarrow> dentry \<Rightarrow> dentry \<Rightarrow> dentry \<Rightarrow> dentry \<Rightarrow> int \<times> 'k"
  vfs_truncate :: "'k \<Rightarrow> path \<Rightarrow> int \<Rightarrow> int \<times> 'k"
  get_write_access :: "'k \<Rightarrow> inode \<Rightarrow> int"
  locks_verify_truncate :: "'k \<Rightarrow> inode \<Rightarrow> int \<Rightarrow> int"
  notify_change :: "'k \<Rightarrow> dentry \<Rightarrow> iattr \<Rightarrow> int \<times> 'k"
  sync_inode_metadata :: "'k \<Rightarrow> inode \<Rightarrow> 'k"
  vfs_getxattr :: "'k \<Rightarrow> dentry \<Rightarrow> string \<Rightarrow> byte list option \<Rightarrow> nat \<Rightarrow> int \<times> byte list option"

text \<open>\<open>file_inode\<close> as compat.h defines it: \<open>f->f_path.dentry->d_inode\<close>.\<close>

definition file_inode :: "'k env \<Rightarrow> 'k \<Rightarrow> file_t \<Rightarrow> inode option" where
  "file_inode K fs f = d_inode K fs (p_dentry (f_path K f))"

subsection \<open>Calls, in program order\<close>

datatype mutex = Ofile_list_lock | I_mutex nat

datatype event =
    GetIdFromFidtable nat
  | LocksMandatoryArea file_t int int lock_type
  | PosixLockFile file_t file_lock
  | PosixUnblockLock file_lock
  | Vmalloc nat
  | Vfree
  | GetFs
  | SetFsKernelDs
  | SetFsOld
  | ClearODirect file_t
  | VfsRead file_t nat int
  | VfsWrite file_t "byte list" nat int
  | VfsFsyncRange file_t int int
  | MutexLock mutex
  | MutexUnlock mutex
  | SmbBreakIIOplock cifssrv_file
  | KernPath string nat "int + path"
  | PathPut path
  | LockRename dentry dentry
  | UnlockRename dentry dentry
  | LookupOneLen string dentry nat "int + dentry"
  | Dget dentry
  | Dput dentry
  | VfsRename dentry dentry dentry dentry
  | VfsTruncate path int
  | GetWriteAccess nat
  | PutWriteAccess nat
  | LocksVerifyTruncate nat int
  | NotifyChange dentry iattr
  | SyncInodeMetadata nat
  | VfsGetxattr dentry string "byte list option" nat

subsection \<open>smb_vfs_locks_mandatory_area\<close>

text \<open>
  Returns 0 at once when the inode records no lock (both kernel-version branches
  test for an empty lock list); otherwise probes with an \<open>FL_ACCESS\<close> request owned
  by the file. \<open>None\<close> is the dereference of a \<open>NULL\<close> inode.
\<close>

definition smb_vfs_locks_mandatory_area ::
  "'k env \<Rightarrow> 'k \<Rightarrow> file_t \<Rightarrow> int \<Rightarrow> int \<Rightarrow> lock_type \<Rightarrow> (int \<times> event list) option" where
  "smb_vfs_locks_mandatory_area K fs file start endp type =
     (case file_inode K fs file of
        None \<Rightarrow> None
      | Some inode \<Rightarrow>
          if i_flock inode = [] then Some (0, [LocksMandatoryArea file start endp type])
          else
            let fl = \<lparr>fl_owner = file, fl_pid = current_tgid K, fl_file = file,
                      fl_flags = FL_POSIX + FL_ACCESS, fl_type = type,
                      fl_start = start, fl_end = endp\<rparr>;
                error = posix_lock_file K fs file fl
            in Some (error, [LocksMandatoryArea file start endp type,
                             PosixLockFile file fl, PosixUnblockLock fl]))"

subsection \<open>smb_vfs_read\<close>

text \<open>
  Result: return value, \<open>*buf\<close>, \<open>*pos\<close>, filesystem, calls. The buffer is handed
  over only when the backend read succeeded.
\<close>

definition smb_vfs_read ::
  "'k env \<Rightarrow> 'k \<Rightarrow> nat \<Rightarrow> nat \<Rightarrow> byte list option \<Rightarrow> nat \<Rightarrow> int \<Rightarrow>
     (int \<times> byte list option \<times> int \<times> 'k \<times> event list) option" where
  "smb_vfs_read K fs server fid buf count pos =
     (if count = 0 then Some (0, buf, pos, fs, [])
      else case get_id_from_fidtable K server fid of
        None \<Rightarrow> Some (- ENOENT, buf, pos, fs, [GetIdFromFidtable fid])
      | Some fp \<Rightarrow>
         (case d_inode K fs (p_dentry (f_path K (filp fp))) of
            None \<Rightarrow> None
          | Some inode \<Rightarrow>
              if S_ISDIR (i_mode inode)
              then Some (- EISDIR, buf, pos, fs, [GetIdFromFidtable fid])
              else
               (case smb_vfs_locks_mandatory_area K fs (filp fp) pos
                       (loff (pos + int count - 1)) F_RDLCK of
                  None \<Rightarrow> None
                | Some (ret, lk) \<Rightarrow>
                    if ret = - EAGAIN
                    then Some (ret, buf, pos, fs, GetIdFromFidtable fid # lk)
                    else if \<not> vmalloc K count
                    then Some (- ENOENT, buf, pos, fs,
                               GetIdFromFidtable fid # lk @ [Vmalloc count])
                    else
                      let (nbytes, rbuf, pos', fs') = vfs_read K fs (filp fp) count pos;
                          io = [Vmalloc count, GetFs, SetFsKernelDs, ClearODirect (filp fp),
                                VfsRead (filp fp) count pos, SetFsOld]
                      in if nbytes < 0
                         then Some (s32 nbytes, buf, pos', fs',
                                    GetIdFromFidtable fid # lk @ io @ [Vfree])
                         else Some (s32 nbytes, Some rbuf, pos', fs',
                                    GetIdFromFidtable fid # lk @ io))))"

subsection \<open>smb_vfs_write\<close>

text \<open>The lease break under the lock of the open-file list, as write and truncate do it.\<close>

definition break_oplock :: "cifssrv_file \<Rightarrow> event list" where
  "break_oplock fp =
     [MutexLock Ofile_list_lock, SmbBreakIIOplock fp, MutexUnlock Ofile_list_lock]"

text \<open>
  Result: return value, \<open>*written\<close>, \<open>*pos\<close>, filesystem, calls. The return value
  of the backend write is stored in an \<open>int\<close>.
\<close>

definition smb_vfs_write ::
  "'k env \<Rightarrow> 'k \<Rightarrow> nat \<Rightarrow> nat \<Rightarrow> byte list \<Rightarrow> nat \<Rightarrow> int \<Rightarrow> bool \<Rightarrow> int \<Rightarrow>
     (int \<times> int \<times> int \<times> 'k \<times> event list) option" where
  "smb_vfs_write K fs server fid buf count pos sync written =
     (case get_id_from_fidtable K server fid of
        None \<Rightarrow> Some (- ENOENT, written, pos, fs, [GetIdFromFidtable fid])
      | Some fp \<Rightarrow>
         (case smb_vfs_locks_mandatory_area K fs (filp fp) pos
                 (loff (pos + int count - 1)) F_WRLCK of
            None \<Rightarrow> None
          | Some (lerr, lk) \<Rightarrow>
              if lerr = - EAGAIN
              then Some (lerr, written, pos, fs, GetIdFromFidtable fid # lk)
              else
                let brk = (if oplocks_enable K then break_oplock fp else []);
                    (n, pos', fs') = vfs_write K fs (filp fp) buf count pos;
                    err = s32 n;
                    io = GetIdFromFidtable fid # lk @ [GetFs, SetFsKernelDs] @ brk @
                         [VfsWrite (filp fp) buf count pos, SetFsOld]
                in if err < 0 then Some (err, written, pos', fs', io)
                   else if sync
                   then let (serr, fs'') =
                              vfs_fsync_range K fs' (filp fp) pos (loff (pos + err))
                        in Some (serr, err, pos', fs'',
                                 io @ [VfsFsyncRange (filp fp) pos (loff (pos + err))])
                   else Some (0, err, pos', fs', io)))"

subsection \<open>smb_check_attrs\<close>

text \<open>The attributes are changed in place; the function returns the changed structure.\<close>

definition smb_check_attrs :: "inode \<Rightarrow> iattr \<Rightarrow> iattr" where
  "smb_check_attrs inode attrs =
     (let attrs1 = (if ia_valid attrs AND ATTR_MODE \<noteq> 0
                    then attrs\<lparr>ia_mode := (ia_mode attrs AND S_IALLUGO) OR
                                            (i_mode inode AND NOT S_IALLUGO)\<rparr>
                    else attrs)
      in if \<not> S_ISDIR (i_mode inode) \<and>
            ((ia_valid attrs1 AND ATTR_UID \<noteq> 0 \<and> ia_uid attrs1 \<noteq> i_uid inode) \<or>
             (ia_valid attrs1 AND ATTR_GID \<noteq> 0 \<and> ia_gid attrs1 \<noteq> i_gid inode))
         then
           let attrs2 = attrs1\<lparr>ia_valid := ia_valid attrs1 OR ATTR_KILL_PRIV\<rparr>
           in if ia_valid attrs2 AND ATTR_MODE \<noteq> 0
              then
                let attrs3 = attrs2\<lparr>ia_mode := ia_mode attrs2 AND NOT S_ISUID\<rparr>
                in if ia_mode attrs3 AND S_IXGRP \<noteq> 0
                   then attrs3\<lparr>ia_mode := ia_mode attrs3 AND NOT S_ISGID\<rparr>
                   else attrs3
              else attrs2\<lparr>ia_valid := ia_valid attrs2 OR (ATTR_KILL_SUID OR ATTR_KILL_SGID)\<rparr>
         else attrs1)"

subsection \<open>smb_vfs_setattr\<close>

text \<open>
  The target is looked up by name when a name is given, by fid otherwise. The
  lookup yields the error return, or the dentry, the path to put at label \<open>out\<close>
  and the calls made.
\<close>

definition setattr_lookup ::
  "'k env \<Rightarrow> 'k \<Rightarrow> nat \<Rightarrow> string option \<Rightarrow> nat \<Rightarrow>
     (int \<times> event list) + (dentry \<times> path option \<times> event list)" where
  "setattr_lookup K fs server name fid =
     (case name of
        Some nm \<Rightarrow>
          (case kern_path K fs nm 0 of
             Inl err \<Rightarrow> Inl (- ENOENT, [KernPath nm 0 (Inl err)])
           | Inr path \<Rightarrow> Inr (p_dentry path, Some path, [KernPath nm 0 (Inr path)]))
      | None \<Rightarrow>
          (case get_id_from_fidtable K server fid of
             None \<Rightarrow> Inl (- ENOENT, [GetIdFromFidtable fid])
           | Some fp \<Rightarrow>
               Inr (p_dentry (f_path K (filp fp)), None, [GetIdFromFidtable fid])))"

definition setattr_out :: "path option \<Rightarrow> event list" where
  "setattr_out pathopt = (case pathopt of Some path \<Rightarrow> [PathPut path] | None \<Rightarrow> [])"

text \<open>From \<open>attrs->ia_valid |= ATTR_CTIME\<close> to label \<open>out\<close>.\<close>

definition setattr_commit ::
  "'k env \<Rightarrow> 'k \<Rightarrow> dentry \<Rightarrow> inode \<Rightarrow> iattr \<Rightarrow> bool \<Rightarrow> int \<times> iattr \<times> 'k \<times> event list" where
  "setattr_commit K fs dentry inode attrs update_size =
     (let attrs' = attrs\<lparr>ia_valid := ia_valid attrs OR ATTR_CTIME\<rparr>;
          (err, fs') = notify_change K fs dentry attrs';
          tr = [MutexLock (I_mutex (i_ino inode)), NotifyChange dentry attrs',
                MutexUnlock (I_mutex (i_ino inode))] @
               (if update_size then [PutWriteAccess (i_ino inode)] else [])
      in if err = 0
         then (err, attrs', sync_inode_metadata K fs' inode,
               tr @ [SyncInodeMetadata (i_ino inode)])
         else (err, attrs', fs', tr))"

text \<open>Result: return value, \<open>*attrs\<close>, filesystem, calls.\<close>

definition smb_vfs_setattr ::
  "'k env \<Rightarrow> 'k \<Rightarrow> nat \<Rightarrow> string option \<Rightarrow> nat \<Rightarrow> iattr \<Rightarrow>
     (int \<times> iattr \<times> 'k \<times> event list) option" where
  "smb_vfs_setattr K fs server name fid attrs =
     (case setattr_lookup K fs server name fid of
        Inl (err, tr) \<Rightarrow> Some (err, attrs, fs, tr)
      | Inr (dentry, pathopt, tr) \<Rightarrow>
         (case d_inode K fs dentry of
            None \<Rightarrow> None
          | Some inode \<Rightarrow>
              let attrs1 = (if S_ISLNK (i_mode inode)
                            then attrs\<lparr>ia_valid := ia_valid attrs AND NOT ATTR_MODE\<rparr>
                            else attrs)
              in if ia_valid attrs1 = 0
                 then Some (0, attrs1, fs, tr @ setattr_out pathopt)
                 else
                   let attrs2 = smb_check_attrs inode attrs1
                   in if ia_valid attrs2 AND ATTR_SIZE \<noteq> 0
                      then
                        let err = get_write_access K fs inode
                        in if err \<noteq> 0
                           then Some (err, attrs2, fs,
                                      tr @ [GetWriteAccess (i_ino inode)] @ setattr_out pathopt)
                           else
                             let err = locks_verify_truncate K fs inode (ia_size attrs2)
                             in if err \<noteq> 0
                                then Some (err, attrs2, fs,
                                       tr @ [GetWriteAccess (i_ino inode),
                                             LocksVerifyTruncate (i_ino inode) (ia_size attrs2),
                                             PutWriteAccess (i_ino inode)] @ setattr_out pathopt)
                                else
                                  let (err, attrs3, fs', tr') =
                                        setattr_commit K fs dentry inode attrs2 True
                                  in Some (err, attrs3, fs',
                                       tr @ [GetWriteAccess (i_ino inode),
                                             LocksVerifyTruncate (i_ino inode) (ia_size attrs2)] @
                                       tr' @ setattr_out pathopt)
                      else
                        let (err, attrs3, fs', tr') =
                              setattr_commit K fs dentry inode attrs2 False
                        in Some (err, attrs3, fs', tr @ tr' @ setattr_out pathopt)))"

subsection \<open>smb_vfs_rename\<close>

text \<open>
  \<open>strrchr\<close> yields the suffix that starts at the last occurrence of the character,
  or \<open>NULL\<close>. The last component of a path is what follows the last separator; there
  is none when the path has no separator or ends in one.
\<close>

fun strrchr :: "string \<Rightarrow> char \<Rightarrow> string option" where
  "strrchr [] c = None"
| "strrchr (x # xs) c =
     (case strrchr xs c of
        Some r \<Rightarrow> Some r
      | None \<Rightarrow> if x = c then Some (x # xs) else None)"

definition last_component :: "string \<Rightarrow> string option" where
  "last_component abs_name =
     (case strrchr abs_name (CHR ''/'') of
        Some (sep # c # cs) \<Rightarrow> Some (c # cs)
      | _ \<Rightarrow> None)"

text \<open>The exit labels: each releases what was acquired last and falls through.\<close>

definition out1 :: "path option \<Rightarrow> event list" where
  "out1 oldpath_p = (case oldpath_p of Some p \<Rightarrow> [PathPut p] | None \<Rightarrow> [])"

definition out2 :: "dentry \<Rightarrow> dentry \<Rightarrow> path \<Rightarrow> path option \<Rightarrow> event list" where
  "out2 dold_p dnew_p newpath_p oldpath_p =
     [UnlockRename dold_p dnew_p, PathPut newpath_p] @ out1 oldpath_p"

definition out3 :: "dentry \<Rightarrow> dentry \<Rightarrow> dentry \<Rightarrow> path \<Rightarrow> path option \<Rightarrow> event list" where
  "out3 dold dold_p dnew_p newpath_p oldpath_p =
     Dput dold # out2 dold_p dnew_p newpath_p oldpath_p"

definition out4 ::
  "dentry \<Rightarrow> dentry \<Rightarrow> dentry \<Rightarrow> dentry \<Rightarrow> path \<Rightarrow> path option \<Rightarrow> event list" where
  "out4 dnew dold dold_p dnew_p newpath_p oldpath_p =
     Dput dnew # out3 dold dold_p dnew_p newpath_p oldpath_p"

text \<open>
  From the source dentry on: the checks of the source, the lookup of the
  destination, the rename. The directories are locked, the source is referenced.
\<close>

definition rename_checked ::
  "'k env \<Rightarrow> 'k \<Rightarrow> dentry option \<Rightarrow> dentry \<Rightarrow> string \<Rightarrow> dentry \<Rightarrow> dentry \<Rightarrow> path \<Rightarrow>
     path option \<Rightarrow> int \<times> 'k \<times> event list" where
  "rename_checked K fs trap dold newname dold_p dnew_p newpath_p oldpath_p =
     (if d_inode K fs dold = None
      then (- ENOENT, fs, out3 dold dold_p dnew_p newpath_p oldpath_p)
      else if trap = Some dold
      then (- EINVAL, fs, out3 dold dold_p dnew_p newpath_p oldpath_p)
      else
        (case lookup_one_len K fs newname dnew_p (length newname) of
           Inl err \<Rightarrow>
             (err, fs, LookupOneLen newname dnew_p (length newname) (Inl err) #
                       out3 dold dold_p dnew_p newpath_p oldpath_p)
         | Inr dnew \<Rightarrow>
             if trap = Some dnew
             then (- ENOTEMPTY, fs,
                   LookupOneLen newname dnew_p (length newname) (Inr dnew) #
                   out4 dnew dold dold_p dnew_p newpath_p oldpath_p)
             else
               let (err, fs') = vfs_rename K fs dold_p dold dnew_p dnew
               in (err, fs',
                   [LookupOneLen newname dnew_p (length newname) (Inr dnew),
                    VfsRename dold_p dold dnew_p dnew] @
                   out4 dnew dold dold_p dnew_p newpath_p oldpath_p)))"

text \<open>
  The source of a rename is the name to look up in its locked parent (\<open>Inl\<close>), or
  the file of the open handle (\<open>Inr\<close>), whose dentry gets one more reference.
\<close>

definition rename_source ::
  "'k env \<Rightarrow> 'k \<Rightarrow> string + file_t \<Rightarrow> dentry \<Rightarrow> (int + dentry) \<times> event list" where
  "rename_source K fs src dold_p =
     (case src of
        Inl oldname \<Rightarrow>
          (lookup_one_len K fs oldname dold_p (length oldname),
           [LookupOneLen oldname dold_p (length oldname)
              (lookup_one_len K fs oldname dold_p (length oldname))])
      | Inr file \<Rightarrow>
          (Inr (p_dentry (f_path K file)), [Dget (p_dentry (f_path K file))]))"

text \<open>From \<open>lock_rename\<close> on.\<close>

definition rename_locked ::
  "'k env \<Rightarrow> 'k \<Rightarrow> string + file_t \<Rightarrow> string \<Rightarrow> dentry \<Rightarrow> path \<Rightarrow> path option \<Rightarrow>
     int \<times> 'k \<times> event list" where
  "rename_locked K fs src newname dold_p newpath_p oldpath_p =
     (let dnew_p = p_dentry newpath_p;
          trap = lock_rename K fs dold_p dnew_p
      in case rename_source K fs src dold_p of
           (Inl err, tr) \<Rightarrow>
             (err, fs, LockRename dold_p dnew_p # tr @ out2 dold_p dnew_p newpath_p oldpath_p)
         | (Inr dold, tr) \<Rightarrow>
             (let (err, fs', tr') =
                    rename_checked K fs trap dold newname dold_p dnew_p newpath_p oldpath_p
              in (err, fs', LockRename dold_p dnew_p # tr @ tr')))"

text \<open>
  Before \<open>lock_rename\<close>: the last components and the parent directories. The result
  is the error return with the calls made, or the source, the new name, the parent
  of the source, the paths of the two parents (the old one only for a rename by
  name) and the calls made.
\<close>

definition rename_prepare ::
  "'k env \<Rightarrow> 'k \<Rightarrow> nat \<Rightarrow> string option \<Rightarrow> string \<Rightarrow> nat \<Rightarrow>
     (int \<times> event list) +
     ((string + file_t) \<times> string \<times> dentry \<times> path \<times> path option \<times> event list)" where
  "rename_prepare K fs server abs_oldname abs_newname oldfid =
     (case abs_oldname of
        Some abs_old \<Rightarrow>
          (case last_component abs_old of
             None \<Rightarrow> Inl (- ENOENT, [])
           | Some oldname \<Rightarrow>
              (case kern_path K fs abs_old LOOKUP_PARENT of
                 Inl err \<Rightarrow> Inl (- ENOENT, [KernPath abs_old LOOKUP_PARENT (Inl err)])
               | Inr oldpath_p \<Rightarrow>
                  (case last_component abs_newname of
                     None \<Rightarrow>
                       Inl (- ENOMEM,
                            KernPath abs_old LOOKUP_PARENT (Inr oldpath_p) #
                            out1 (Some oldpath_p))
                   | Some newname \<Rightarrow>
                      (case kern_path K fs abs_newname LOOKUP_PARENT of
                         Inl err \<Rightarrow>
                           Inl (err,
                                [KernPath abs_old LOOKUP_PARENT (Inr oldpath_p),
                                 KernPath abs_newname LOOKUP_PARENT (Inl err)] @
                                out1 (Some oldpath_p))
                       | Inr newpath_p \<Rightarrow>
                           Inr (Inl oldname, newname, p_dentry oldpath_p, newpath_p,
                                Some oldpath_p,
                                [KernPath abs_old LOOKUP_PARENT (Inr oldpath_p),
                                 KernPath abs_newname LOOKUP_PARENT (Inr newpath_p)])))))
      | None \<Rightarrow>
          (case get_id_from_fidtable K server oldfid of
             None \<Rightarrow> Inl (- ENOENT, [GetIdFromFidtable oldfid])
           | Some fp \<Rightarrow>
              (case last_component abs_newname of
                 None \<Rightarrow> Inl (- ENOMEM, [GetIdFromFidtable oldfid])
               | Some newname \<Rightarrow>
                  (case kern_path K fs abs_newname LOOKUP_PARENT of
                     Inl err \<Rightarrow>
                       Inl (err, [GetIdFromFidtable oldfid,
                                  KernPath abs_newname LOOKUP_PARENT (Inl err)])
                   | Inr newpath_p \<Rightarrow>
                       Inr (Inr (filp fp), newname,
                            d_parent K (p_dentry (f_path K (filp fp))), newpath_p, None,
                            [GetIdFromFidtable oldfid,
                             KernPath abs_newname LOOKUP_PARENT (Inr newpath_p)])))))"

text \<open>Result: return value, filesystem, calls. \<open>abs_oldname\<close> is \<open>NULL\<close> for a rename by fid.\<close>

definition smb_vfs_rename ::
  "'k env \<Rightarrow> 'k \<Rightarrow> nat \<Rightarrow> string option \<Rightarrow> string \<Rightarrow> nat \<Rightarrow> int \<times> 'k \<times> event list" where
  "smb_vfs_rename K fs server abs_oldname abs_newname oldfid =
     (case rename_prepare K fs server abs_oldname abs_newname oldfid of
        Inl (err, tr) \<Rightarrow> (err, fs, tr)
      | Inr (src, newname, dold_p, newpath_p, oldpath_p, tr) \<Rightarrow>
          (let (err, fs', tr') = rename_locked K fs src newname dold_p newpath_p oldpath_p
           in (err, fs', tr @ tr')))"

subsection \<open>smb_vfs_truncate\<close>

text \<open>Result: return value, filesystem, calls. \<open>name\<close> is \<open>NULL\<close> for a truncate by fid.\<close>

definition smb_vfs_truncate ::
  "'k env \<Rightarrow> 'k \<Rightarrow> nat \<Rightarrow> string option \<Rightarrow> nat \<Rightarrow> int \<Rightarrow> (int \<times> 'k \<times> event list) option" where
  "smb_vfs_truncate K fs server name fid sz =
     (case name of
        Some nm \<Rightarrow>
          (case kern_path K fs nm 0 of
             Inl err \<Rightarrow> Some (err, fs, [KernPath nm 0 (Inl err)])
           | Inr path \<Rightarrow>
               let (err, fs') = vfs_truncate K fs path sz
               in Some (err, fs', [KernPath nm 0 (Inr path), VfsTruncate path sz,
                                   PathPut path]))
      | None \<Rightarrow>
          (case get_id_from_fidtable K server fid of
             None \<Rightarrow> Some (- ENOENT, fs, [GetIdFromFidtable fid])
           | Some fp \<Rightarrow>
               if oplocks_enable K
               then
                 let (err, fs') = vfs_truncate K fs (f_path K (filp fp)) sz
                 in Some (err, fs',
                          GetIdFromFidtable fid # break_oplock fp @
                          [VfsTruncate (f_path K (filp fp)) sz])
               else
                 (case file_inode K fs (filp fp) of
                    None \<Rightarrow> None
                  | Some inode \<Rightarrow>
                     (case (if sz < i_size inode
                            then smb_vfs_locks_mandatory_area K fs (filp fp) sz
                                   (loff (i_size inode - 1)) F_WRLCK
                            else smb_vfs_locks_mandatory_area K fs (filp fp) (i_size inode)
                                   (loff (sz - 1)) F_WRLCK) of
                        None \<Rightarrow> None
                      | Some (lerr, lk) \<Rightarrow>
                          if lerr = - EAGAIN
                          then Some (lerr, fs, GetIdFromFidtable fid # lk)
                          else
                            let (err, fs') = vfs_truncate K fs (f_path K (filp fp)) sz
                            in Some (err, fs',
                                     GetIdFromFidtable fid # lk @
                                     [VfsTruncate (f_path K (filp fp)) sz])))))"

subsection \<open>smb_vfs_getxattr\<close>

text \<open>
  Result: return value, contents of \<open>xattr_buf\<close>, calls. The first call asks for
  the length with no buffer; the second reads into the caller's buffer.
\<close>

definition smb_vfs_getxattr ::
  "'k env \<Rightarrow> 'k \<Rightarrow> dentry \<Rightarrow> string \<Rightarrow> byte list option \<Rightarrow> 32 word \<Rightarrow>
     int \<times> byte list option \<times> event list" where
  "smb_vfs_getxattr K fs dentry xattr_name xattr_buf buf_len =
     (let xattr_len = fst (vfs_getxattr K fs dentry xattr_name None 0)
      in if xattr_len \<le> 0
         then (s32 xattr_len, xattr_buf, [VfsGetxattr dentry xattr_name None 0])
         else if xattr_len > uint buf_len
         then (- ENOMEM, xattr_buf, [VfsGetxattr dentry xattr_name None 0])
         else
           let (ret, buf') = vfs_getxattr K fs dentry xattr_name xattr_buf (nat xattr_len)
           in (s32 ret, buf',
               [VfsGetxattr dentry xattr_name None 0,
                VfsGetxattr dentry xattr_name xattr_buf (nat xattr_len)]))"

subsection \<open>Reading a list of calls\<close>

text \<open>\<open>precedes P Q\<close>: no call \<open>Q\<close> is made before the first call \<open>P\<close>.\<close>

fun precedes :: "(event \<Rightarrow> bool) \<Rightarrow> (event \<Rightarrow> bool) \<Rightarrow> event list \<Rightarrow> bool" where
  "precedes P Q [] = True"
| "precedes P Q (e # es) = (if P e then True else (\<not> Q e \<and> precedes P Q es))"

fun is_write_lock_check :: "event \<Rightarrow> bool" where
  "is_write_lock_check (LocksMandatoryArea f s e t) = (t = F_WRLCK)"
| "is_write_lock_check _ = False"

fun is_lock_check :: "event \<Rightarrow> bool" where
  "is_lock_check (LocksMandatoryArea f s e t) = True"
| "is_lock_check (PosixLockFile f fl) = True"
| "is_lock_check _ = False"

fun is_lease_break :: "event \<Rightarrow> bool" where
  "is_lease_break (SmbBreakIIOplock fp) = True"
| "is_lease_break _ = False"

fun is_lease_break_or_write :: "event \<Rightarrow> bool" where
  "is_lease_break_or_write (SmbBreakIIOplock fp) = True"
| "is_lease_break_or_write (VfsWrite f b c p) = True"
| "is_lease_break_or_write _ = False"

fun is_backend_truncate :: "event \<Rightarrow> bool" where
  "is_backend_truncate (VfsTruncate p n) = True"
| "is_backend_truncate _ = False"

fun is_backend_rename :: "event \<Rightarrow> bool" where
  "is_backend_rename (VfsRename a b c d) = True"
| "is_backend_rename _ = False"

fun is_notify_change :: "event \<Rightarrow> bool" where
  "is_notify_change (NotifyChange d a) = True"
| "is_notify_change _ = False"

fun is_lock_event :: "event \<Rightarrow> bool" where
  "is_lock_event (LockRename a b) = True"
| "is_lock_event (UnlockRename a b) = True"
| "is_lock_event (MutexLock m) = True"
| "is_lock_event (MutexUnlock m) = True"
| "is_lock_event _ = False"

text \<open>The byte ranges handed to the lock check, with the intent.\<close>

fun probed_ranges :: "event list \<Rightarrow> (int \<times> int \<times> lock_type) list" where
  "probed_ranges [] = []"
| "probed_ranges (LocksMandatoryArea f s e t # es) = (s, e, t) # probed_ranges es"
| "probed_ranges (x # es) = probed_ranges es"

text \<open>
  What a call acquires and what it releases: a reference on a path, a reference
  on a dentry, the locks of the two parent directories of a rename (taken and
  dropped together by \<open>lock_rename\<close> and \<open>unlock_rename\<close>).
\<close>

datatype resource = PathRef path | DentryRef dentry | RenameLocks dentry dentry

fun acquired :: "event \<Rightarrow> resource option" where
  "acquired (KernPath n f (Inr p)) = Some (PathRef p)"
| "acquired (LookupOneLen n d l (Inr c)) = Some (DentryRef c)"
| "acquired (Dget d) = Some (DentryRef d)"
| "acquired (LockRename p1 p2) = Some (RenameLocks p1 p2)"
| "acquired _ = None"

fun released :: "event \<Rightarrow> resource option" where
  "released (PathPut p) = Some (PathRef p)"
| "released (Dput d) = Some (DentryRef d)"
| "released (UnlockRename p1 p2) = Some (RenameLocks p1 p2)"
| "released _ = None"

text \<open>
  \<open>lifo held tr\<close>: run over the calls with the stack of what is held; a release
  must give back what was acquired last, and nothing is held at the end.
\<close>

fun lifo :: "resource list \<Rightarrow> event list \<Rightarrow> bool" where
  "lifo held [] = (held = [])"
| "lifo held (e # es) =
     (case acquired e of
        Some r \<Rightarrow> lifo (r # held) es
      | None \<Rightarrow>
         (case released e of
            None \<Rightarrow> lifo held es
          | Some r \<Rightarrow>
             (case held of
                [] \<Rightarrow> False
              | h # hs \<Rightarrow> h = r \<and> lifo hs es)))"


section \<open>A small kernel to run the helpers on\<close>

text \<open>
  One mount with the directories \<open>/\<close> (dentry 1), \<open>/a\<close> (10), \<open>/a/b\<close> (11),
  \<open>/a/b/c\<close> (12), \<open>/b\<close> (20) and the regular files \<open>/a/b/c/x\<close> (13) and \<open>/a/f\<close>
  (14). \<open>/a/f\<close> has mode 0100770 and carries a read lock on bytes 0 to 4095 held
  through another open file (71). Fid 7 is \<open>/a/f\<close> (file 70), fid 3 is \<open>/b\<close>
  (file 30), fid 5 is \<open>/a/b\<close> (file 50). The state of the filesystem is the size of
  \<open>/a/f\<close> and the list of the renames done.
\<close>

record demo_fs =
  fsize :: int
  moved :: "(dentry \<times> dentry) list"

definition demo_fs0 :: demo_fs where
  "demo_fs0 = \<lparr>fsize = 100, moved = []\<rparr>"

definition demo_path :: "dentry \<Rightarrow> path" where
  "demo_path d = \<lparr>p_mnt = 0, p_dentry = d\<rparr>"

definition demo_names :: "(string \<times> dentry) list" where
  "demo_names = [(''/'', 1), (''/a'', 10), (''/a/b'', 11), (''/a/b/c'', 12),
                 (''/a/b/c/x'', 13), (''/a/f'', 14), (''/b'', 20)]"

definition demo_children :: "((dentry \<times> string) \<times> dentry) list" where
  "demo_children = [((1, ''a''), 10), ((10, ''b''), 11), ((11, ''c''), 12),
                    ((12, ''x''), 13), ((10, ''f''), 14), ((1, ''b''), 20)]"

definition demo_d_parent :: "dentry \<Rightarrow> dentry" where
  "demo_d_parent d =
     (if d = 10 \<or> d = 20 then 1 else if d = 11 \<or> d = 14 then 10
      else if d = 12 then 11 else if d = 13 then 12 else d)"

definition demo_dirname :: "string \<Rightarrow> string" where
  "demo_dirname s =
     (let d = rev (drop 1 (dropWhile (\<lambda>c. c \<noteq> CHR ''/'') (rev s)))
      in if d = [] then ''/'' else d)"

definition demo_kern_path :: "demo_fs \<Rightarrow> string \<Rightarrow> nat \<Rightarrow> int + path" where
  "demo_kern_path fs name flags =
     (case map_of demo_names (if flags = LOOKUP_PARENT then demo_dirname name else name) of
        None \<Rightarrow> Inl (- ENOENT)
      | Some d \<Rightarrow> Inr (demo_path d))"

text \<open>A name that does not exist resolves to the negative dentry 99.\<close>

definition demo_lookup_one_len :: "demo_fs \<Rightarrow> string \<Rightarrow> dentry \<Rightarrow> nat \<Rightarrow> int + dentry" where
  "demo_lookup_one_len fs name parent len =
     (case map_of demo_children (parent, take len name) of
        None \<Rightarrow> Inr 99
      | Some d \<Rightarrow> Inr d)"

definition demo_lock :: file_lock where
  "demo_lock = \<lparr>fl_owner = 71, fl_pid = 500, fl_file = 71, fl_flags = FL_POSIX,
                 fl_type = F_RDLCK, fl_start = 0, fl_end = 4095\<rparr>"

definition demo_d_inode :: "demo_fs \<Rightarrow> dentry \<Rightarrow> inode option" where
  "demo_d_inode fs d =
     (if d = 1 \<or> d = 10 \<or> d = 11 \<or> d = 12 \<or> d = 20
      then Some \<lparr>i_ino = d, i_mode = 0x41ED, i_size = 4096, i_uid = 0, i_gid = 0,
                 i_flock = []\<rparr>
      else if d = 13
      then Some \<lparr>i_ino = 13, i_mode = 0x81A4, i_size = 10, i_uid = 1000, i_gid = 1000,
                 i_flock = []\<rparr>
      else if d = 14
      then Some \<lparr>i_ino = 14, i_mode = 0x81F8, i_size = fsize fs, i_uid = 1000,
                 i_gid = 1000, i_flock = [demo_lock]\<rparr>
      else None)"

definition demo_fidtable :: "nat \<Rightarrow> nat \<Rightarrow> cifssrv_file option" where
  "demo_fidtable server fid =
     (if fid = 7 then Some \<lparr>filp = 70\<rparr> else if fid = 3 then Some \<lparr>filp = 30\<rparr>
      else if fid = 5 then Some \<lparr>filp = 50\<rparr> else None)"

definition demo_f_path :: "file_t \<Rightarrow> path" where
  "demo_f_path f =
     demo_path (if f = 70 then 14 else if f = 30 then 20 else if f = 50 then 11 else 0)"

text \<open>
  Two locks conflict when their owners differ, one of them is a write lock and
  their ranges overlap; the probe answers \<open>-EAGAIN\<close> on a conflict.
\<close>

definition locks_conflict :: "file_lock \<Rightarrow> file_lock \<Rightarrow> bool" where
  "locks_conflict caller sys =
     (fl_owner caller \<noteq> fl_owner sys \<and>
      (fl_type caller = F_WRLCK \<or> fl_type sys = F_WRLCK) \<and>
      fl_start caller \<le> fl_end sys \<and> fl_start sys \<le> fl_end caller)"

definition demo_posix_lock_file :: "demo_fs \<Rightarrow> file_t \<Rightarrow> file_lock \<Rightarrow> int" where
  "demo_posix_lock_file fs f fl =
     (case demo_d_inode fs (p_dentry (demo_f_path f)) of
        None \<Rightarrow> 0
      | Some i \<Rightarrow> if list_ex (locks_conflict fl) (i_flock i) then - EAGAIN else 0)"

text \<open>
  The child of \<open>p1\<close> on the way up from \<open>p2\<close>, if \<open>p1\<close> is an ancestor of \<open>p2\<close>;
  the tree is less than five levels deep.
\<close>

fun demo_d_ancestor :: "nat \<Rightarrow> dentry \<Rightarrow> dentry \<Rightarrow> dentry option" where
  "demo_d_ancestor 0 p1 p2 = None"
| "demo_d_ancestor (Suc n) p1 p2 =
     (if demo_d_parent p2 = p2 then None
      else if demo_d_parent p2 = p1 then Some p2
      else demo_d_ancestor n p1 (demo_d_parent p2))"

definition demo_lock_rename :: "demo_fs \<Rightarrow> dentry \<Rightarrow> dentry \<Rightarrow> dentry option" where
  "demo_lock_rename fs p1 p2 =
     (if p1 = p2 then None
      else case demo_d_ancestor (Suc (Suc (Suc (Suc (Suc 0))))) p2 p1 of
             Some p \<Rightarrow> Some p
           | None \<Rightarrow> demo_d_ancestor (Suc (Suc (Suc (Suc (Suc 0))))) p1 p2)"

definition demo_xattr :: "byte list" where
  "demo_xattr = [1, 2, 3, 4, 5, 6, 7, 8]"

definition demo_vfs_getxattr ::
  "demo_fs \<Rightarrow> dentry \<Rightarrow> string \<Rightarrow> byte list option \<Rightarrow> nat \<Rightarrow> int \<times> byte list option" where
  "demo_vfs_getxattr fs d name buf len =
     (if d = 14 \<and> name = ''user.tag''
      then (case buf of
              None \<Rightarrow> (8, None)
            | Some b \<Rightarrow> if len < 8 then (- 34, Some b)
                        else (8, Some (demo_xattr @ drop 8 b)))
      else (- 61, buf))"

definition demo_env :: "bool \<Rightarrow> demo_fs env" where
  "demo_env oplocks =
     \<lparr>get_id_from_fidtable = demo_fidtable,
      oplocks_enable = oplocks,
      f_path = demo_f_path,
      d_parent = demo_d_parent,
      d_inode = demo_d_inode,
      current_tgid = 400,
      posix_lock_file = demo_posix_lock_file,
      vmalloc = (\<lambda>n. True),
      vfs_read = (\<lambda>fs f count pos. (int count, replicate count 0, pos + int count, fs)),
      vfs_write = (\<lambda>fs f buf count pos.
         (int count, pos + int count, fs\<lparr>fsize := max (fsize fs) (pos + int count)\<rparr>)),
      vfs_fsync_range = (\<lambda>fs f a b. (0, fs)),
      kern_path = demo_kern_path,
      lock_rename = demo_lock_rename,
      lookup_one_len = demo_lookup_one_len,
      vfs_rename = (\<lambda>fs dold_p dold dnew_p dnew. (0, fs\<lparr>moved := (dold, dnew_p) # moved fs\<rparr>)),
      vfs_truncate = (\<lambda>fs p sz. if p_dentry p = 14 then (0, fs\<lparr>fsize := sz\<rparr>)
                                 else (- EISDIR, fs)),
      get_write_access = (\<lambda>fs i. if i_ino i = 13 then - 26 else 0),
      locks_verify_truncate = (\<lambda>fs i sz. if i_flock i = [] then 0 else - EAGAIN),
      notify_change = (\<lambda>fs d attrs. (0, fs)),
      sync_inode_metadata = (\<lambda>fs i. fs),
      vfs_getxattr = demo_vfs_getxattr\<rparr>"

text \<open>The attribute requests the sanitizer is run on.\<close>

definition chown_inode :: inode where
  "chown_inode = \<lparr>i_ino = 14, i_mode = 0x81F8, i_size = 100, i_uid = 1000, i_gid = 1000,
                   i_flock = []\<rparr>"

definition chown_keep_sgid :: iattr where
  "chown_keep_sgid = \<lparr>ia_valid = ATTR_MODE OR ATTR_UID, ia_mode = 0xDC0, ia_uid = 0,
                       ia_gid = 1000, ia_size = 0\<rparr>"

definition chown_with_mode :: iattr where
  "chown_with_mode = \<lparr>ia_valid = ATTR_MODE OR ATTR_UID, ia_mode = 0xDF8, ia_uid = 0,
                       ia_gid = 1000, ia_size = 0\<rparr>"

definition chown_only :: iattr where
  "chown_only = \<lparr>ia_valid = ATTR_GID, ia_mode = 0, ia_uid = 1000, ia_gid = 0,
                  ia_size = 0\<rparr>"

definition truncate_request :: iattr where
  "truncate_request = \<lparr>ia_valid = ATTR_SIZE OR ATTR_MODE, ia_mode = 0x1A4, ia_uid = 0,
                        ia_gid = 0, ia_size = 0\<rparr>"

section \<open>Properties\<close>

subsection \<open>Evaluation and the lock check\<close>

lemmas demo_defs = demo_env_def demo_fidtable_def demo_f_path_def demo_path_def demo_d_inode_def
  demo_posix_lock_file_def locks_conflict_def demo_lock_def demo_fs0_def demo_kern_path_def
  demo_names_def demo_children_def demo_lookup_one_len_def demo_lock_rename_def demo_d_parent_def
  demo_dirname_def demo_vfs_getxattr_def demo_xattr_def

lemmas errno_defs = ENOENT_def EAGAIN_def ENOMEM_def EISDIR_def EINVAL_def ENOTEMPTY_def

lemmas const_defs = errno_defs LOOKUP_PARENT_def FL_POSIX_def FL_ACCESS_def loff_def s32_def
  S_ISDIR_def S_ISLNK_def S_IFMT_def S_IFDIR_def S_IFLNK_def

lemma lock_gate_calls:
  "smb_vfs_locks_mandatory_area K fs f s e t = Some (r, lk) \<Longrightarrow>
     lk = [LocksMandatoryArea f s e t] \<or>
     (\<exists>fl. lk = [LocksMandatoryArea f s e t, PosixLockFile f fl, PosixUnblockLock fl])"
  by (auto simp: smb_vfs_locks_mandatory_area_def Let_def split: option.splits if_splits)

lemma lock_gate_quiet:
  assumes "smb_vfs_locks_mandatory_area K fs f s e t = Some (r, lk)"
  shows "\<not> list_ex is_lease_break_or_write lk"
  using lock_gate_calls [OF assms] by auto

lemma lock_gate_probe:
  assumes "smb_vfs_locks_mandatory_area K fs f s e t = Some (r, lk)"
  shows "probed_ranges lk = [(s, e, t)]" and "\<not> list_ex is_lease_break lk"
    and "\<not> list_ex is_backend_truncate lk"
    and "\<exists>rest. lk = LocksMandatoryArea f s e t # rest"
  using lock_gate_calls [OF assms] by auto

lemma lock_gate_returns:
  "file_inode K fs f = Some inode \<Longrightarrow>
     \<exists>r lk. smb_vfs_locks_mandatory_area K fs f s e t = Some (r, lk)"
  by (simp add: smb_vfs_locks_mandatory_area_def Let_def)

lemma probed_ranges_append: "probed_ranges (xs @ ys) = probed_ranges xs @ probed_ranges ys"
  by (induction xs rule: probed_ranges.induct) simp_all

subsection \<open>Write\<close>

text \<open>
  C1. In a write, no lease break and no backend write is made before the lock
  check with write intent. When the handle resolves and the lock check answers
  \<open>-EAGAIN\<close>, the write returns \<open>-EAGAIN\<close> having made the lookup of the handle and
  the lock check only: no lease break, no backend write, and \<open>*written\<close>, the
  position and the filesystem are as before. The write returns whenever the file
  of the handle has an inode.
\<close>

theorem write_lock_check_first:
  "(\<forall>r. smb_vfs_write K fs server fid buf count pos sync written = Some r \<longrightarrow>
       precedes is_write_lock_check is_lease_break_or_write (snd (snd (snd (snd r))))) \<and>
   (\<forall>fp lk. get_id_from_fidtable K server fid = Some fp \<longrightarrow>
       smb_vfs_locks_mandatory_area K fs (filp fp) pos (loff (pos + int count - 1)) F_WRLCK
         = Some (- EAGAIN, lk) \<longrightarrow>
       smb_vfs_write K fs server fid buf count pos sync written =
         Some (- EAGAIN, written, pos, fs, GetIdFromFidtable fid # lk) \<and>
       \<not> list_ex is_lease_break_or_write (GetIdFromFidtable fid # lk)) \<and>
   (\<forall>fp inode. get_id_from_fidtable K server fid = Some fp \<longrightarrow>
       file_inode K fs (filp fp) = Some inode \<longrightarrow>
       (\<exists>r. smb_vfs_write K fs server fid buf count pos sync written = Some r))"
proof (intro conjI allI impI)
  fix r
  assume run: "smb_vfs_write K fs server fid buf count pos sync written = Some r"
  show "precedes is_write_lock_check is_lease_break_or_write (snd (snd (snd (snd r))))"
  proof (cases "get_id_from_fidtable K server fid")
    case None
    with run show ?thesis by (auto simp: smb_vfs_write_def)
  next
    case (Some fp)
    with run obtain lerr lk where
      gate: "smb_vfs_locks_mandatory_area K fs (filp fp) pos (loff (pos + int count - 1)) F_WRLCK
               = Some (lerr, lk)"
      by (auto simp: smb_vfs_write_def split: option.splits)
    from lock_gate_calls [OF gate] have
      hit: "\<And>ys. precedes is_write_lock_check is_lease_break_or_write
                   (GetIdFromFidtable fid # lk @ ys)"
      by auto
    have shape: "\<exists>ys. snd (snd (snd (snd r))) = GetIdFromFidtable fid # lk @ ys"
      using run Some gate
      by (auto simp: smb_vfs_write_def Let_def split: if_splits prod.splits)
    then show ?thesis using hit by auto
  qed
next
  fix fp lk
  assume a: "get_id_from_fidtable K server fid = Some fp"
    and b: "smb_vfs_locks_mandatory_area K fs (filp fp) pos (loff (pos + int count - 1)) F_WRLCK
         = Some (- EAGAIN, lk)"
  from a b show "smb_vfs_write K fs server fid buf count pos sync written =
         Some (- EAGAIN, written, pos, fs, GetIdFromFidtable fid # lk)"
    by (simp add: smb_vfs_write_def)
  from lock_gate_quiet [OF b]
  show "\<not> list_ex is_lease_break_or_write (GetIdFromFidtable fid # lk)"
    by simp
next
  fix fp inode
  assume a: "get_id_from_fidtable K server fid = Some fp"
    and i: "file_inode K fs (filp fp) = Some inode"
  from lock_gate_returns [OF i] obtain lerr lk where
    "smb_vfs_locks_mandatory_area K fs (filp fp) pos (loff (pos + int count - 1)) F_WRLCK
       = Some (lerr, lk)"
    by blast
  with a show "\<exists>r. smb_vfs_write K fs server fid buf count pos sync written = Some r"
    by (simp add: smb_vfs_write_def Let_def case_prod_beta)
qed

theorem write_lock_check_first_witness:
  "locks_conflict
     \<lparr>fl_owner = 70, fl_pid = 400, fl_file = 70, fl_flags = 9, fl_type = F_WRLCK,
       fl_start = 0, fl_end = 1023\<rparr> demo_lock \<and>
   smb_vfs_write (demo_env True) demo_fs0 1 7 [1, 2, 3] 1024 0 True 0 =
     Some (- EAGAIN, 0, 0, demo_fs0,
       [GetIdFromFidtable 7, LocksMandatoryArea 70 0 1023 F_WRLCK,
        PosixLockFile 70 \<lparr>fl_owner = 70, fl_pid = 400, fl_file = 70, fl_flags = 9,
          fl_type = F_WRLCK, fl_start = 0, fl_end = 1023\<rparr>,
        PosixUnblockLock \<lparr>fl_owner = 70, fl_pid = 400, fl_file = 70, fl_flags = 9,
          fl_type = F_WRLCK, fl_start = 0, fl_end = 1023\<rparr>])"
proof -
  have fp: "get_id_from_fidtable (demo_env True) 1 7 = Some \<lparr>filp = 70\<rparr>"
    by (simp add: demo_env_def demo_fidtable_def)
  have gate: "smb_vfs_locks_mandatory_area (demo_env True) demo_fs0 (filp \<lparr>filp = 70\<rparr>) 0
                (loff (0 + int 1024 - 1)) F_WRLCK =
              Some (- EAGAIN,
                [LocksMandatoryArea 70 0 1023 F_WRLCK,
                 PosixLockFile 70 \<lparr>fl_owner = 70, fl_pid = 400, fl_file = 70, fl_flags = 9,
                   fl_type = F_WRLCK, fl_start = 0, fl_end = 1023\<rparr>,
                 PosixUnblockLock \<lparr>fl_owner = 70, fl_pid = 400, fl_file = 70, fl_flags = 9,
                   fl_type = F_WRLCK, fl_start = 0, fl_end = 1023\<rparr>])"
    by (simp add: smb_vfs_locks_mandatory_area_def file_inode_def Let_def demo_defs const_defs)
  have conflict: "locks_conflict
     \<lparr>fl_owner = 70, fl_pid = 400, fl_file = 70, fl_flags = 9, fl_type = F_WRLCK,
       fl_start = 0, fl_end = 1023\<rparr> demo_lock"
    by (simp add: locks_conflict_def demo_lock_def)
  from write_lock_check_first [of "demo_env True" demo_fs0 1 7 "[1, 2, 3]" 1024 0 True 0,
      THEN conjunct2, THEN conjunct1, rule_format, OF fp gate] conflict
  show ?thesis by simp
qed

subsection \<open>Rename\<close>



lemma rename_prepare_error:
  assumes "rename_prepare K fs server abs_oldname abs_newname oldfid = Inl (err, tr)"
  shows "lifo [] tr" and "\<not> list_ex is_lock_event tr" and "\<not> list_ex is_backend_rename tr"
  using assms
  by (auto simp: rename_prepare_def out1_def split: option.splits sum.splits)

lemma rename_prepare_ok:
  assumes "rename_prepare K fs server abs_oldname abs_newname oldfid =
             Inr (src, newname, dold_p, newpath_p, oldpath_p, tr0)"
  shows "lifo [] (tr0 @ tr) =
           lifo (PathRef newpath_p # (case oldpath_p of Some p \<Rightarrow> [PathRef p] | None \<Rightarrow> [])) tr"
    and "filter is_lock_event tr0 = []" and "\<not> list_ex is_backend_rename tr0"
  using assms
  by (auto simp: rename_prepare_def split: option.splits sum.splits)



lemma rename_run:
  assumes "rename_prepare K fs server abs_oldname abs_newname oldfid =
             Inr (src, newname, dold_p, newpath_p, oldpath_p, tr0)"
    and "fst (rename_source K fs src dold_p) = Inr dold"
    and "C = rename_checked K fs (lock_rename K fs dold_p (p_dentry newpath_p)) dold
               newname dold_p (p_dentry newpath_p) newpath_p oldpath_p"
  shows "\<exists>tr1. smb_vfs_rename K fs server abs_oldname abs_newname oldfid =
             (fst C, fst (snd C),
              tr0 @ LockRename dold_p (p_dentry newpath_p) # tr1 @ snd (snd C)) \<and>
           \<not> list_ex is_backend_rename (tr0 @ LockRename dold_p (p_dentry newpath_p) # tr1)"
proof -
  obtain r tr1 where s: "rename_source K fs src dold_p = (r, tr1)"
    by (cases "rename_source K fs src dold_p")
  with assms(2) have r: "r = Inr dold" by simp
  from s have q: "\<not> list_ex is_backend_rename tr1"
    by (auto simp: rename_source_def split: sum.splits)
  have l: "rename_locked K fs src newname dold_p newpath_p oldpath_p =
             (fst C, fst (snd C), LockRename dold_p (p_dentry newpath_p) # tr1 @ snd (snd C))"
    by (simp add: rename_locked_def Let_def s r assms(3) case_prod_beta)
  have m: "smb_vfs_rename K fs server abs_oldname abs_newname oldfid =
             (fst C, fst (snd C),
              tr0 @ LockRename dold_p (p_dentry newpath_p) # tr1 @ snd (snd C))"
    by (simp add: smb_vfs_rename_def assms(1) l)
  from rename_prepare_ok(3) [OF assms(1)] q
  have "\<not> list_ex is_backend_rename (tr0 @ LockRename dold_p (p_dentry newpath_p) # tr1)"
    by simp
  with m show ?thesis by blast
qed

lemma out3_quiet: "\<not> list_ex is_backend_rename (out3 a b c d e)"
  by (simp add: out3_def out2_def out1_def split: option.splits)

lemma out4_quiet: "\<not> list_ex is_backend_rename (out4 f a b c d e)"
  by (simp add: out4_def out3_quiet)

text \<open>
  C3. In a rename that has resolved its parents, taken the directory locks and
  found the source to exist: when the source is the trap that \<open>lock_rename\<close>
  returned, the rename returns \<open>-EINVAL\<close>; when it is not and the destination,
  once looked up, is the trap, the rename returns \<open>-ENOTEMPTY\<close>. In both cases
  the backend rename is not called and the filesystem is as before.
\<close>

theorem rename_trap_rejected:
  assumes "rename_prepare K fs server abs_oldname abs_newname oldfid =
             Inr (src, newname, dold_p, newpath_p, oldpath_p, tr0)"
    and "fst (rename_source K fs src dold_p) = Inr dold"
    and "d_inode K fs dold = Some inode"
  shows "(lock_rename K fs dold_p (p_dentry newpath_p) = Some dold \<longrightarrow>
            fst (smb_vfs_rename K fs server abs_oldname abs_newname oldfid) = - EINVAL \<and>
            fst (snd (smb_vfs_rename K fs server abs_oldname abs_newname oldfid)) = fs \<and>
            \<not> list_ex is_backend_rename
                (snd (snd (smb_vfs_rename K fs server abs_oldname abs_newname oldfid)))) \<and>
         (lock_rename K fs dold_p (p_dentry newpath_p) \<noteq> Some dold \<longrightarrow>
            (\<forall>dnew. lookup_one_len K fs newname (p_dentry newpath_p) (length newname) = Inr dnew
               \<longrightarrow> lock_rename K fs dold_p (p_dentry newpath_p) = Some dnew \<longrightarrow>
               fst (smb_vfs_rename K fs server abs_oldname abs_newname oldfid) = - ENOTEMPTY \<and>
               fst (snd (smb_vfs_rename K fs server abs_oldname abs_newname oldfid)) = fs \<and>
               \<not> list_ex is_backend_rename
                   (snd (snd (smb_vfs_rename K fs server abs_oldname abs_newname oldfid)))))"
proof -
  define C where "C = rename_checked K fs (lock_rename K fs dold_p (p_dentry newpath_p)) dold
               newname dold_p (p_dentry newpath_p) newpath_p oldpath_p"
  from rename_run [OF assms(1,2) C_def] obtain tr1 where
    run: "smb_vfs_rename K fs server abs_oldname abs_newname oldfid =
             (fst C, fst (snd C),
              tr0 @ LockRename dold_p (p_dentry newpath_p) # tr1 @ snd (snd C))"
    and quiet: "\<not> list_ex is_backend_rename (tr0 @ LockRename dold_p (p_dentry newpath_p) # tr1)"
    by blast
  have src_trap: "lock_rename K fs dold_p (p_dentry newpath_p) = Some dold \<Longrightarrow>
      C = (- EINVAL, fs, out3 dold dold_p (p_dentry newpath_p) newpath_p oldpath_p)"
    by (simp add: C_def rename_checked_def assms(3))
  have dst_trap: "\<And>dnew. lock_rename K fs dold_p (p_dentry newpath_p) \<noteq> Some dold \<Longrightarrow>
      lookup_one_len K fs newname (p_dentry newpath_p) (length newname) = Inr dnew \<Longrightarrow>
      lock_rename K fs dold_p (p_dentry newpath_p) = Some dnew \<Longrightarrow>
      C = (- ENOTEMPTY, fs,
           LookupOneLen newname (p_dentry newpath_p) (length newname) (Inr dnew) #
           out4 dnew dold dold_p (p_dentry newpath_p) newpath_p oldpath_p)"
    by (simp add: C_def rename_checked_def assms(3))
  show ?thesis
  proof (intro conjI impI allI)
    assume t: "lock_rename K fs dold_p (p_dentry newpath_p) = Some dold"
    from src_trap [OF t] quiet
    show "fst (smb_vfs_rename K fs server abs_oldname abs_newname oldfid) = - EINVAL"
      and "fst (snd (smb_vfs_rename K fs server abs_oldname abs_newname oldfid)) = fs"
      and "\<not> list_ex is_backend_rename
                (snd (snd (smb_vfs_rename K fs server abs_oldname abs_newname oldfid)))"
      by (simp_all add: run out3_quiet)
  next
    fix dnew
    assume t: "lock_rename K fs dold_p (p_dentry newpath_p) \<noteq> Some dold"
      and l: "lookup_one_len K fs newname (p_dentry newpath_p) (length newname) = Inr dnew"
      and d: "lock_rename K fs dold_p (p_dentry newpath_p) = Some dnew"
    from dst_trap [OF t l d] quiet
    show "fst (smb_vfs_rename K fs server abs_oldname abs_newname oldfid) = - ENOTEMPTY"
      and "fst (snd (smb_vfs_rename K fs server abs_oldname abs_newname oldfid)) = fs"
      and "\<not> list_ex is_backend_rename
                (snd (snd (smb_vfs_rename K fs server abs_oldname abs_newname oldfid)))"
      by (simp_all add: run out4_quiet)
  qed
qed

theorem rename_trap_rejected_witness:
  "lock_rename (demo_env True) demo_fs0 10 12 = Some 11 \<and>
   lookup_one_len (demo_env True) demo_fs0 ''b'' 10 1 = Inr 11 \<and>
   fst (smb_vfs_rename (demo_env True) demo_fs0 1 (Some ''/a/b'') ''/a/b/c/d'' 0) = - EINVAL \<and>
   fst (snd (smb_vfs_rename (demo_env True) demo_fs0 1 (Some ''/a/b'') ''/a/b/c/d'' 0)) =
     demo_fs0 \<and>
   \<not> list_ex is_backend_rename
       (snd (snd (smb_vfs_rename (demo_env True) demo_fs0 1 (Some ''/a/b'') ''/a/b/c/d'' 0))) \<and>
   lock_rename (demo_env True) demo_fs0 12 10 = Some 11 \<and>
   lookup_one_len (demo_env True) demo_fs0 ''x'' 12 1 = Inr 13 \<and>
   lookup_one_len (demo_env True) demo_fs0 ''b'' 10 1 = Inr 11 \<and>
   fst (smb_vfs_rename (demo_env True) demo_fs0 1 (Some ''/a/b/c/x'') ''/a/b'' 0) =
     - ENOTEMPTY \<and>
   fst (snd (smb_vfs_rename (demo_env True) demo_fs0 1 (Some ''/a/b/c/x'') ''/a/b'' 0)) =
     demo_fs0 \<and>
   \<not> list_ex is_backend_rename
       (snd (snd (smb_vfs_rename (demo_env True) demo_fs0 1 (Some ''/a/b/c/x'') ''/a/b'' 0)))"
proof -
  have p1: "rename_prepare (demo_env True) demo_fs0 1 (Some ''/a/b'') ''/a/b/c/d'' 0 =
              Inr (Inl ''b'', ''d'', 10, \<lparr>p_mnt = 0, p_dentry = 12\<rparr>,
                   Some \<lparr>p_mnt = 0, p_dentry = 10\<rparr>,
                   [KernPath ''/a/b'' 16 (Inr \<lparr>p_mnt = 0, p_dentry = 10\<rparr>),
                    KernPath ''/a/b/c/d'' 16 (Inr \<lparr>p_mnt = 0, p_dentry = 12\<rparr>)])"
    by (simp add: rename_prepare_def last_component_def demo_defs const_defs)
  have s1: "fst (rename_source (demo_env True) demo_fs0 (Inl ''b'') 10) = Inr 11"
    by (simp add: rename_source_def demo_defs)
  have i1: "d_inode (demo_env True) demo_fs0 11 =
              Some \<lparr>i_ino = 11, i_mode = 0x41ED, i_size = 4096, i_uid = 0, i_gid = 0,
                     i_flock = []\<rparr>"
    by (simp add: demo_env_def demo_d_inode_def)
  have t1: "lock_rename (demo_env True) demo_fs0 10 12 = Some 11"
    by (simp add: demo_env_def demo_lock_rename_def demo_d_parent_def)
  have p2: "rename_prepare (demo_env True) demo_fs0 1 (Some ''/a/b/c/x'') ''/a/b'' 0 =
              Inr (Inl ''x'', ''b'', 12, \<lparr>p_mnt = 0, p_dentry = 10\<rparr>,
                   Some \<lparr>p_mnt = 0, p_dentry = 12\<rparr>,
                   [KernPath ''/a/b/c/x'' 16 (Inr \<lparr>p_mnt = 0, p_dentry = 12\<rparr>),
                    KernPath ''/a/b'' 16 (Inr \<lparr>p_mnt = 0, p_dentry = 10\<rparr>)])"
    by (simp add: rename_prepare_def last_component_def demo_defs const_defs)
  have s2: "fst (rename_source (demo_env True) demo_fs0 (Inl ''x'') 12) = Inr 13"
    by (simp add: rename_source_def demo_defs)
  have i2: "d_inode (demo_env True) demo_fs0 13 =
              Some \<lparr>i_ino = 13, i_mode = 0x81A4, i_size = 10, i_uid = 1000, i_gid = 1000,
                     i_flock = []\<rparr>"
    by (simp add: demo_env_def demo_d_inode_def)
  have t2: "lock_rename (demo_env True) demo_fs0 12 10 = Some 11"
    by (simp add: demo_env_def demo_lock_rename_def demo_d_parent_def)
  have l1: "lookup_one_len (demo_env True) demo_fs0 ''b'' 10 1 = Inr 11"
    and l2: "lookup_one_len (demo_env True) demo_fs0 ''x'' 12 1 = Inr 13"
    by (simp_all add: demo_defs)
  from rename_trap_rejected [OF p1 s1 i1] t1
  have a: "fst (smb_vfs_rename (demo_env True) demo_fs0 1 (Some ''/a/b'') ''/a/b/c/d'' 0) = - EINVAL \<and>
   fst (snd (smb_vfs_rename (demo_env True) demo_fs0 1 (Some ''/a/b'') ''/a/b/c/d'' 0)) =
     demo_fs0 \<and>
   \<not> list_ex is_backend_rename
       (snd (snd (smb_vfs_rename (demo_env True) demo_fs0 1 (Some ''/a/b'') ''/a/b/c/d'' 0)))"
    by simp
  from rename_trap_rejected [OF p2 s2 i2] t2 l1
  have b: "fst (smb_vfs_rename (demo_env True) demo_fs0 1 (Some ''/a/b/c/x'') ''/a/b'' 0) =
     - ENOTEMPTY \<and>
   fst (snd (smb_vfs_rename (demo_env True) demo_fs0 1 (Some ''/a/b/c/x'') ''/a/b'' 0)) =
     demo_fs0 \<and>
   \<not> list_ex is_backend_rename
       (snd (snd (smb_vfs_rename (demo_env True) demo_fs0 1 (Some ''/a/b/c/x'') ''/a/b'' 0)))"
    by simp
  from a b t1 t2 l1 l2 show ?thesis by simp
qed

text \<open>
  C7 (as the code has it). A rename by name whose source path has no last
  component returns \<open>-ENOENT\<close> with no call made. A rename whose destination path
  has no last component makes no lock call and no backend rename and leaves the
  filesystem as it was; it returns \<open>-ENOMEM\<close> when the source side resolved (the
  source has a last component and its parent is found, or the handle of a rename
  by fid is found), and the \<open>-ENOENT\<close> of the source side otherwise.
\<close>

theorem rename_missing_last_component:
  "(\<forall>abs_old. abs_oldname = Some abs_old \<longrightarrow> last_component abs_old = None \<longrightarrow>
      smb_vfs_rename K fs server abs_oldname abs_newname oldfid = (- ENOENT, fs, [])) \<and>
   (last_component abs_newname = None \<longrightarrow>
      (fst (smb_vfs_rename K fs server abs_oldname abs_newname oldfid) = - ENOMEM \<or>
       fst (smb_vfs_rename K fs server abs_oldname abs_newname oldfid) = - ENOENT) \<and>
      fst (snd (smb_vfs_rename K fs server abs_oldname abs_newname oldfid)) = fs \<and>
      \<not> list_ex is_lock_event
          (snd (snd (smb_vfs_rename K fs server abs_oldname abs_newname oldfid))) \<and>
      \<not> list_ex is_backend_rename
          (snd (snd (smb_vfs_rename K fs server abs_oldname abs_newname oldfid)))) \<and>
   (last_component abs_newname = None \<longrightarrow>
      (\<forall>abs_old oldname oldpath_p. abs_oldname = Some abs_old \<longrightarrow>
          last_component abs_old = Some oldname \<longrightarrow>
          kern_path K fs abs_old LOOKUP_PARENT = Inr oldpath_p \<longrightarrow>
          fst (smb_vfs_rename K fs server abs_oldname abs_newname oldfid) = - ENOMEM) \<and>
      (\<forall>fp. abs_oldname = None \<longrightarrow> get_id_from_fidtable K server oldfid = Some fp \<longrightarrow>
          fst (smb_vfs_rename K fs server abs_oldname abs_newname oldfid) = - ENOMEM))"
proof (intro conjI impI allI)
  fix abs_old
  assume "abs_oldname = Some abs_old" "last_component abs_old = None"
  then show "smb_vfs_rename K fs server abs_oldname abs_newname oldfid = (- ENOENT, fs, [])"
    by (simp add: smb_vfs_rename_def rename_prepare_def)
next
  assume n: "last_component abs_newname = None"
  then have "\<exists>err tr. rename_prepare K fs server abs_oldname abs_newname oldfid = Inl (err, tr) \<and>
                (err = - ENOMEM \<or> err = - ENOENT)"
    by (auto simp: rename_prepare_def split: option.splits sum.splits)
  then obtain err tr where
    p: "rename_prepare K fs server abs_oldname abs_newname oldfid = Inl (err, tr)"
    and e: "err = - ENOMEM \<or> err = - ENOENT"
    by blast
  have r: "smb_vfs_rename K fs server abs_oldname abs_newname oldfid = (err, fs, tr)"
    by (simp add: smb_vfs_rename_def p)
  from e show "fst (smb_vfs_rename K fs server abs_oldname abs_newname oldfid) = - ENOMEM \<or>
       fst (smb_vfs_rename K fs server abs_oldname abs_newname oldfid) = - ENOENT"
    by (simp add: r)
  show "fst (snd (smb_vfs_rename K fs server abs_oldname abs_newname oldfid)) = fs"
    by (simp add: r)
  from rename_prepare_error(2) [OF p]
  show "\<not> list_ex is_lock_event
          (snd (snd (smb_vfs_rename K fs server abs_oldname abs_newname oldfid)))"
    by (simp add: r)
  from rename_prepare_error(3) [OF p]
  show "\<not> list_ex is_backend_rename
          (snd (snd (smb_vfs_rename K fs server abs_oldname abs_newname oldfid)))"
    by (simp add: r)
next
  fix abs_old oldname oldpath_p
  assume "last_component abs_newname = None" "abs_oldname = Some abs_old"
    "last_component abs_old = Some oldname" "kern_path K fs abs_old LOOKUP_PARENT = Inr oldpath_p"
  then show "fst (smb_vfs_rename K fs server abs_oldname abs_newname oldfid) = - ENOMEM"
    by (simp add: smb_vfs_rename_def rename_prepare_def)
next
  fix fp
  assume "last_component abs_newname = None" "abs_oldname = None"
    "get_id_from_fidtable K server oldfid = Some fp"
  then show "fst (smb_vfs_rename K fs server abs_oldname abs_newname oldfid) = - ENOMEM"
    by (simp add: smb_vfs_rename_def rename_prepare_def)
qed

theorem rename_missing_last_component_witness:
  "last_component ''/a/'' = None \<and>
   smb_vfs_rename (demo_env True) demo_fs0 1 (Some ''/a/'') ''/b/y'' 0 =
     (- ENOENT, demo_fs0, []) \<and>
   last_component ''/b/'' = None \<and> last_component ''/a/f'' = Some ''f'' \<and>
   kern_path (demo_env True) demo_fs0 ''/a/f'' LOOKUP_PARENT = Inr \<lparr>p_mnt = 0, p_dentry = 10\<rparr> \<and>
   fst (smb_vfs_rename (demo_env True) demo_fs0 1 (Some ''/a/f'') ''/b/'' 0) = - ENOMEM \<and>
   fst (snd (smb_vfs_rename (demo_env True) demo_fs0 1 (Some ''/a/f'') ''/b/'' 0)) = demo_fs0 \<and>
   \<not> list_ex is_lock_event
       (snd (snd (smb_vfs_rename (demo_env True) demo_fs0 1 (Some ''/a/f'') ''/b/'' 0))) \<and>
   \<not> list_ex is_backend_rename
       (snd (snd (smb_vfs_rename (demo_env True) demo_fs0 1 (Some ''/a/f'') ''/b/'' 0)))"
proof -
  have a: "last_component ''/a/'' = None" and b: "last_component ''/b/'' = None"
    and c: "last_component ''/a/f'' = Some ''f''"
    by (simp_all add: last_component_def)
  have k: "kern_path (demo_env True) demo_fs0 ''/a/f'' LOOKUP_PARENT =
             Inr \<lparr>p_mnt = 0, p_dentry = 10\<rparr>"
    by (simp add: demo_defs const_defs)
  from rename_missing_last_component
         [of "Some ''/a/''" "demo_env True" demo_fs0 1 "''/b/y''" 0] a
  have x: "smb_vfs_rename (demo_env True) demo_fs0 1 (Some ''/a/'') ''/b/y'' 0 =
     (- ENOENT, demo_fs0, [])"
    by simp
  from rename_missing_last_component
         [of "Some ''/a/f''" "demo_env True" demo_fs0 1 "''/b/''" 0] b c k
  have y: "fst (smb_vfs_rename (demo_env True) demo_fs0 1 (Some ''/a/f'') ''/b/'' 0) = - ENOMEM \<and>
   fst (snd (smb_vfs_rename (demo_env True) demo_fs0 1 (Some ''/a/f'') ''/b/'' 0)) = demo_fs0 \<and>
   \<not> list_ex is_lock_event
       (snd (snd (smb_vfs_rename (demo_env True) demo_fs0 1 (Some ''/a/f'') ''/b/'' 0))) \<and>
   \<not> list_ex is_backend_rename
       (snd (snd (smb_vfs_rename (demo_env True) demo_fs0 1 (Some ''/a/f'') ''/b/'' 0)))"
    by simp
  from a b c k x y show ?thesis by simp
qed

text \<open>
  The two errors differ from each other, and the one for the source is the error
  of a source whose parent directory does not exist: no error of the rename is
  kept for a path without a last component.
\<close>

theorem rename_invalid_name_counterexample:
  "last_component ''/a/'' = None \<and> last_component ''/b/'' = None \<and>
   fst (smb_vfs_rename (demo_env True) demo_fs0 1 (Some ''/a/'') ''/b/y'' 0) = - ENOENT \<and>
   fst (smb_vfs_rename (demo_env True) demo_fs0 1 (Some ''/a/f'') ''/b/'' 0) = - ENOMEM \<and>
   fst (smb_vfs_rename (demo_env True) demo_fs0 1 (Some ''/a/'') ''/b/y'' 0) \<noteq>
   fst (smb_vfs_rename (demo_env True) demo_fs0 1 (Some ''/a/f'') ''/b/'' 0) \<and>
   last_component ''/nodir/x'' = Some ''x'' \<and>
   fst (smb_vfs_rename (demo_env True) demo_fs0 1 (Some ''/nodir/x'') ''/b/y'' 0) =
   fst (smb_vfs_rename (demo_env True) demo_fs0 1 (Some ''/a/'') ''/b/y'' 0)"
  by (simp add: smb_vfs_rename_def rename_prepare_def last_component_def out1_def
      demo_defs const_defs)

subsection \<open>Truncate\<close>

text \<open>
  C4 (as the code has it). A truncate by path makes no lock check and no lease
  break; when the path resolves its calls are the lookup, the backend truncate
  and the release of the path, and it returns what the backend returned. A
  truncate by handle with leases disabled probes, with write intent, the range
  from the smaller of the old and the new size to the larger of the two minus
  one, breaks no lease, truncates only after the probe, and on \<open>-EAGAIN\<close> returns
  it without truncating. A truncate by handle with leases enabled probes no range
  and breaks the lease, under the lock of the open-file list, before it truncates.
\<close>

theorem truncate_lock_and_lease_steps:
  "(\<forall>nm. name = Some nm \<longrightarrow>
      (\<exists>r. smb_vfs_truncate K fs server name fid sz = Some r \<and>
         \<not> list_ex is_lock_check (snd (snd r)) \<and> \<not> list_ex is_lease_break (snd (snd r)) \<and>
         (\<forall>path. kern_path K fs nm 0 = Inr path \<longrightarrow>
            r = (fst (vfs_truncate K fs path sz), snd (vfs_truncate K fs path sz),
                 [KernPath nm 0 (Inr path), VfsTruncate path sz, PathPut path])))) \<and>
   (\<forall>fp inode. name = None \<longrightarrow> get_id_from_fidtable K server fid = Some fp \<longrightarrow>
      \<not> oplocks_enable K \<longrightarrow> file_inode K fs (filp fp) = Some inode \<longrightarrow>
      (\<exists>r. smb_vfs_truncate K fs server name fid sz = Some r \<and>
         probed_ranges (snd (snd r)) =
           [(min sz (i_size inode), loff (max sz (i_size inode) - 1), F_WRLCK)] \<and>
         \<not> list_ex is_lease_break (snd (snd r)) \<and>
         precedes is_write_lock_check is_backend_truncate (snd (snd r)) \<and>
         (\<forall>lk. smb_vfs_locks_mandatory_area K fs (filp fp) (min sz (i_size inode))
                  (loff (max sz (i_size inode) - 1)) F_WRLCK = Some (- EAGAIN, lk) \<longrightarrow>
            r = (- EAGAIN, fs, GetIdFromFidtable fid # lk) \<and>
            \<not> list_ex is_backend_truncate (snd (snd r))))) \<and>
   (\<forall>fp. name = None \<longrightarrow> get_id_from_fidtable K server fid = Some fp \<longrightarrow>
      oplocks_enable K \<longrightarrow>
      smb_vfs_truncate K fs server name fid sz =
        Some (fst (vfs_truncate K fs (f_path K (filp fp)) sz),
              snd (vfs_truncate K fs (f_path K (filp fp)) sz),
              [GetIdFromFidtable fid, MutexLock Ofile_list_lock, SmbBreakIIOplock fp,
               MutexUnlock Ofile_list_lock, VfsTruncate (f_path K (filp fp)) sz]))"
proof (intro conjI allI impI)
  fix nm
  assume n: "name = Some nm"
  show "\<exists>r. smb_vfs_truncate K fs server name fid sz = Some r \<and>
         \<not> list_ex is_lock_check (snd (snd r)) \<and> \<not> list_ex is_lease_break (snd (snd r)) \<and>
         (\<forall>path. kern_path K fs nm 0 = Inr path \<longrightarrow>
            r = (fst (vfs_truncate K fs path sz), snd (vfs_truncate K fs path sz),
                 [KernPath nm 0 (Inr path), VfsTruncate path sz, PathPut path]))"
  proof (cases "kern_path K fs nm 0")
    case (Inl e)
    with n show ?thesis by (simp add: smb_vfs_truncate_def)
  next
    case (Inr p)
    with n show ?thesis by (simp add: smb_vfs_truncate_def case_prod_beta)
  qed
next
  fix fp inode
  assume n: "name = None" and f: "get_id_from_fidtable K server fid = Some fp"
    and o: "\<not> oplocks_enable K" and i: "file_inode K fs (filp fp) = Some inode"
  define s where "s = min sz (i_size inode)"
  define e where "e = loff (max sz (i_size inode) - 1)"
  have range: "(if sz < i_size inode
                then smb_vfs_locks_mandatory_area K fs (filp fp) sz
                       (loff (i_size inode - 1)) F_WRLCK
                else smb_vfs_locks_mandatory_area K fs (filp fp) (i_size inode)
                       (loff (sz - 1)) F_WRLCK) =
               smb_vfs_locks_mandatory_area K fs (filp fp) s e F_WRLCK"
    by (simp add: s_def e_def min_def max_def)
  from lock_gate_returns [OF i] obtain lerr lk where
    g: "smb_vfs_locks_mandatory_area K fs (filp fp) s e F_WRLCK = Some (lerr, lk)"
    by blast
  note p = lock_gate_probe [OF g]
  from p(4) obtain rest where lk: "lk = LocksMandatoryArea (filp fp) s e F_WRLCK # rest"
    by blast
  have run: "smb_vfs_truncate K fs server name fid sz =
     (if lerr = - EAGAIN then Some (lerr, fs, GetIdFromFidtable fid # lk)
      else Some (fst (vfs_truncate K fs (f_path K (filp fp)) sz),
                 snd (vfs_truncate K fs (f_path K (filp fp)) sz),
                 GetIdFromFidtable fid # lk @ [VfsTruncate (f_path K (filp fp)) sz]))"
    unfolding smb_vfs_truncate_def
    by (simp add: n f o i range g case_prod_beta)
  show "\<exists>r. smb_vfs_truncate K fs server name fid sz = Some r \<and>
         probed_ranges (snd (snd r)) =
           [(min sz (i_size inode), loff (max sz (i_size inode) - 1), F_WRLCK)] \<and>
         \<not> list_ex is_lease_break (snd (snd r)) \<and>
         precedes is_write_lock_check is_backend_truncate (snd (snd r)) \<and>
         (\<forall>lk. smb_vfs_locks_mandatory_area K fs (filp fp) (min sz (i_size inode))
                  (loff (max sz (i_size inode) - 1)) F_WRLCK = Some (- EAGAIN, lk) \<longrightarrow>
            r = (- EAGAIN, fs, GetIdFromFidtable fid # lk) \<and>
            \<not> list_ex is_backend_truncate (snd (snd r)))"
  proof (cases "lerr = - EAGAIN")
    case True
    with run p(1,2,3) g lk show ?thesis
      by (simp add: s_def [symmetric] e_def [symmetric])
  next
    case False
    with run p(1,2,3) g lk show ?thesis
      by (simp add: s_def [symmetric] e_def [symmetric] probed_ranges_append)
  qed
next
  fix fp
  assume "name = None" "get_id_from_fidtable K server fid = Some fp" "oplocks_enable K"
  then show "smb_vfs_truncate K fs server name fid sz =
        Some (fst (vfs_truncate K fs (f_path K (filp fp)) sz),
              snd (vfs_truncate K fs (f_path K (filp fp)) sz),
              [GetIdFromFidtable fid, MutexLock Ofile_list_lock, SmbBreakIIOplock fp,
               MutexUnlock Ofile_list_lock, VfsTruncate (f_path K (filp fp)) sz])"
    by (simp add: smb_vfs_truncate_def break_oplock_def case_prod_beta)
qed

theorem truncate_lock_and_lease_steps_witness:
  "kern_path (demo_env True) demo_fs0 ''/a/f'' 0 = Inr \<lparr>p_mnt = 0, p_dentry = 14\<rparr> \<and>
   smb_vfs_truncate (demo_env True) demo_fs0 1 (Some ''/a/f'') 7 0 =
     Some (0, \<lparr>fsize = 0, moved = []\<rparr>,
           [KernPath ''/a/f'' 0 (Inr \<lparr>p_mnt = 0, p_dentry = 14\<rparr>),
            VfsTruncate \<lparr>p_mnt = 0, p_dentry = 14\<rparr> 0, PathPut \<lparr>p_mnt = 0, p_dentry = 14\<rparr>]) \<and>
   get_id_from_fidtable (demo_env False) 1 7 = Some \<lparr>filp = 70\<rparr> \<and>
   map_option i_size (file_inode (demo_env False) demo_fs0 70) = Some 100 \<and>
   map_option (\<lambda>r. probed_ranges (snd (snd r)))
     (smb_vfs_truncate (demo_env False) demo_fs0 1 None 7 40) = Some [(40, 99, F_WRLCK)] \<and>
   map_option fst (smb_vfs_truncate (demo_env False) demo_fs0 1 None 7 40) = Some (- EAGAIN) \<and>
   map_option (\<lambda>r. fst (snd r)) (smb_vfs_truncate (demo_env False) demo_fs0 1 None 7 40) =
     Some demo_fs0 \<and>
   smb_vfs_truncate (demo_env True) demo_fs0 1 None 7 40 =
     Some (0, \<lparr>fsize = 40, moved = []\<rparr>,
           [GetIdFromFidtable 7, MutexLock Ofile_list_lock, SmbBreakIIOplock \<lparr>filp = 70\<rparr>,
            MutexUnlock Ofile_list_lock, VfsTruncate \<lparr>p_mnt = 0, p_dentry = 14\<rparr> 40])"
proof -
  have k: "kern_path (demo_env True) demo_fs0 ''/a/f'' 0 = Inr \<lparr>p_mnt = 0, p_dentry = 14\<rparr>"
    by (simp add: demo_defs const_defs)
  from truncate_lock_and_lease_steps
         [of "Some ''/a/f''" "demo_env True" demo_fs0 1 7 0, THEN conjunct1, rule_format, OF refl]
  obtain r1 where
    r1: "smb_vfs_truncate (demo_env True) demo_fs0 1 (Some ''/a/f'') 7 0 = Some r1"
    and x1: "\<forall>path. kern_path (demo_env True) demo_fs0 ''/a/f'' 0 = Inr path \<longrightarrow>
            r1 = (fst (vfs_truncate (demo_env True) demo_fs0 path 0),
                  snd (vfs_truncate (demo_env True) demo_fs0 path 0),
                  [KernPath ''/a/f'' 0 (Inr path), VfsTruncate path 0, PathPut path])"
    by blast
  from x1 [rule_format, OF k] r1
  have a: "smb_vfs_truncate (demo_env True) demo_fs0 1 (Some ''/a/f'') 7 0 =
     Some (0, \<lparr>fsize = 0, moved = []\<rparr>,
           [KernPath ''/a/f'' 0 (Inr \<lparr>p_mnt = 0, p_dentry = 14\<rparr>),
            VfsTruncate \<lparr>p_mnt = 0, p_dentry = 14\<rparr> 0, PathPut \<lparr>p_mnt = 0, p_dentry = 14\<rparr>])"
    by (simp add: demo_env_def demo_fs0_def)
  have f: "get_id_from_fidtable (demo_env False) 1 7 = Some \<lparr>filp = 70\<rparr>"
    and f': "get_id_from_fidtable (demo_env True) 1 7 = Some \<lparr>filp = 70\<rparr>"
    by (simp_all add: demo_env_def demo_fidtable_def)
  have o: "\<not> oplocks_enable (demo_env False)" and o': "oplocks_enable (demo_env True)"
    by (simp_all add: demo_env_def)
  have i: "file_inode (demo_env False) demo_fs0 (filp \<lparr>filp = 70\<rparr>) =
             Some \<lparr>i_ino = 14, i_mode = 0x81F8, i_size = 100, i_uid = 1000, i_gid = 1000,
                    i_flock = [demo_lock]\<rparr>"
    by (simp add: file_inode_def demo_env_def demo_f_path_def demo_path_def demo_d_inode_def
        demo_fs0_def)
  have g: "smb_vfs_locks_mandatory_area (demo_env False) demo_fs0 (filp \<lparr>filp = 70\<rparr>)
             (min 40 (i_size \<lparr>i_ino = 14, i_mode = 0x81F8, i_size = 100, i_uid = 1000,
                               i_gid = 1000, i_flock = [demo_lock]\<rparr>))
             (loff (max 40 (i_size \<lparr>i_ino = 14, i_mode = 0x81F8, i_size = 100, i_uid = 1000,
                                     i_gid = 1000, i_flock = [demo_lock]\<rparr>) - 1)) F_WRLCK =
           Some (- EAGAIN,
             [LocksMandatoryArea 70 40 99 F_WRLCK,
              PosixLockFile 70 \<lparr>fl_owner = 70, fl_pid = 400, fl_file = 70, fl_flags = 9,
                fl_type = F_WRLCK, fl_start = 40, fl_end = 99\<rparr>,
              PosixUnblockLock \<lparr>fl_owner = 70, fl_pid = 400, fl_file = 70, fl_flags = 9,
                fl_type = F_WRLCK, fl_start = 40, fl_end = 99\<rparr>])"
    by (simp add: smb_vfs_locks_mandatory_area_def file_inode_def Let_def demo_defs const_defs)
  from truncate_lock_and_lease_steps
         [of None "demo_env False" demo_fs0 1 7 40, THEN conjunct2, THEN conjunct1,
          rule_format, OF refl f o i]
  obtain r2 where
    r2: "smb_vfs_truncate (demo_env False) demo_fs0 1 None 7 40 = Some r2"
    and p2: "probed_ranges (snd (snd r2)) =
           [(min 40 (i_size \<lparr>i_ino = 14, i_mode = 0x81F8, i_size = 100, i_uid = 1000,
                              i_gid = 1000, i_flock = [demo_lock]\<rparr>),
             loff (max 40 (i_size \<lparr>i_ino = 14, i_mode = 0x81F8, i_size = 100, i_uid = 1000,
                                    i_gid = 1000, i_flock = [demo_lock]\<rparr>) - 1), F_WRLCK)]"
    and x2: "\<forall>lk. smb_vfs_locks_mandatory_area (demo_env False) demo_fs0 (filp \<lparr>filp = 70\<rparr>)
             (min 40 (i_size \<lparr>i_ino = 14, i_mode = 0x81F8, i_size = 100, i_uid = 1000,
                               i_gid = 1000, i_flock = [demo_lock]\<rparr>))
             (loff (max 40 (i_size \<lparr>i_ino = 14, i_mode = 0x81F8, i_size = 100, i_uid = 1000,
                                     i_gid = 1000, i_flock = [demo_lock]\<rparr>) - 1)) F_WRLCK =
               Some (- EAGAIN, lk) \<longrightarrow>
            r2 = (- EAGAIN, demo_fs0, GetIdFromFidtable 7 # lk) \<and>
            \<not> list_ex is_backend_truncate (snd (snd r2))"
    by blast
  from x2 [rule_format, OF g] r2 p2
  have b: "map_option (\<lambda>r. probed_ranges (snd (snd r)))
     (smb_vfs_truncate (demo_env False) demo_fs0 1 None 7 40) = Some [(40, 99, F_WRLCK)] \<and>
   map_option fst (smb_vfs_truncate (demo_env False) demo_fs0 1 None 7 40) = Some (- EAGAIN) \<and>
   map_option (\<lambda>r. fst (snd r)) (smb_vfs_truncate (demo_env False) demo_fs0 1 None 7 40) =
     Some demo_fs0"
    by simp
  from truncate_lock_and_lease_steps
         [of None "demo_env True" demo_fs0 1 7 40, THEN conjunct2, THEN conjunct2,
          rule_format, OF refl f' o']
  have c: "smb_vfs_truncate (demo_env True) demo_fs0 1 None 7 40 =
     Some (0, \<lparr>fsize = 40, moved = []\<rparr>,
           [GetIdFromFidtable 7, MutexLock Ofile_list_lock, SmbBreakIIOplock \<lparr>filp = 70\<rparr>,
            MutexUnlock Ofile_list_lock, VfsTruncate \<lparr>p_mnt = 0, p_dentry = 14\<rparr> 40])"
    by (simp add: demo_env_def demo_fs0_def demo_f_path_def demo_path_def)
  from i have i': "map_option i_size (file_inode (demo_env False) demo_fs0 70) = Some 100"
    by simp
  from k a f i' b c show ?thesis by simp
qed

text \<open>
  The file is 100 bytes long and is truncated to 40 bytes with leases disabled:
  the range probed is 40 to 99, not from the larger size (100) to the other size
  minus one (39).
\<close>

theorem truncate_probe_range_counterexample:
  "map_option i_size (file_inode (demo_env False) demo_fs0 70) = Some 100 \<and>
   map_option (\<lambda>r. probed_ranges (snd (snd r)))
     (smb_vfs_truncate (demo_env False) demo_fs0 1 None 7 40) = Some [(40, 99, F_WRLCK)] \<and>
   [(40 :: int, 99 :: int, F_WRLCK)] \<noteq> [(max 100 40, min 100 40 - 1, F_WRLCK)]"
  by (simp add: smb_vfs_truncate_def smb_vfs_locks_mandatory_area_def file_inode_def Let_def
      demo_defs const_defs)

subsection \<open>Attributes\<close>

lemma and_not_self: "((m :: umode_t) AND NOT b) AND b = 0"
  by (simp add: and.assoc)

lemma suid_stays_cleared: "(((m :: umode_t) AND NOT S_ISUID) AND NOT S_ISGID) AND S_ISUID = 0"
proof -
  have "NOT S_ISGID AND S_ISUID = S_ISUID"
    by (simp add: S_ISGID_def S_ISUID_def)
  then have "((m AND NOT S_ISUID) AND NOT S_ISGID) AND S_ISUID = (m AND NOT S_ISUID) AND S_ISUID"
    by (simp add: and.assoc)
  then show ?thesis by (simp add: and.assoc)
qed

lemma sanitized_mode_bit:
  assumes "NOT S_ISUID AND b = b" and "S_IALLUGO AND b = b"
  shows "(((m :: umode_t) AND S_IALLUGO OR i AND NOT S_IALLUGO) AND NOT S_ISUID) AND b = m AND b"
proof -
  have z: "NOT S_IALLUGO AND b = 0"
  proof -
    have "NOT S_IALLUGO AND b = NOT S_IALLUGO AND (S_IALLUGO AND b)" by (simp add: assms(2))
    also have "\<dots> = (NOT S_IALLUGO AND S_IALLUGO) AND b" by (simp only: and.assoc)
    finally show ?thesis by simp
  qed
  have "((m AND S_IALLUGO OR i AND NOT S_IALLUGO) AND NOT S_ISUID) AND b =
        (m AND S_IALLUGO OR i AND NOT S_IALLUGO) AND b"
    by (simp add: and.assoc assms(1))
  also have "\<dots> = m AND (S_IALLUGO AND b) OR i AND (NOT S_IALLUGO AND b)"
    by (simp add: bit.conj_disj_distrib2 and.assoc)
  also have "\<dots> = m AND b"
    by (simp add: assms(2) z)
  finally show ?thesis .
qed

lemma sanitized_mode_xgrp:
  "(((m :: umode_t) AND S_IALLUGO OR i AND NOT S_IALLUGO) AND NOT S_ISUID) AND S_IXGRP
     = m AND S_IXGRP"
  by (rule sanitized_mode_bit) (simp_all add: S_IALLUGO_def S_ISUID_def S_IXGRP_def)

lemma sanitized_mode_sgid:
  "(((m :: umode_t) AND S_IALLUGO OR i AND NOT S_IALLUGO) AND NOT S_ISUID) AND S_ISGID
     = m AND S_ISGID"
  by (rule sanitized_mode_bit) (simp_all add: S_IALLUGO_def S_ISUID_def S_ISGID_def)

lemma or_and_nonzero_right: "(k :: 32 word) AND s \<noteq> 0 \<Longrightarrow> (v OR k) AND s \<noteq> 0"
  by (simp add: bit.conj_disj_distrib2 or_eq_0_iff)

lemma kill_bits_marked:
  "(((v :: 32 word) OR ATTR_KILL_PRIV) OR (ATTR_KILL_SUID OR ATTR_KILL_SGID)) AND ATTR_KILL_SUID \<noteq> 0"
  "(((v :: 32 word) OR ATTR_KILL_PRIV) OR (ATTR_KILL_SUID OR ATTR_KILL_SGID)) AND ATTR_KILL_SGID \<noteq> 0"
  by (rule or_and_nonzero_right, simp add: ATTR_KILL_SUID_def ATTR_KILL_SGID_def)+

lemma or_priv_mode_bit: "((v :: 32 word) OR ATTR_KILL_PRIV) AND ATTR_MODE = v AND ATTR_MODE"
proof -
  have "ATTR_KILL_PRIV AND ATTR_MODE = 0"
    by (simp add: ATTR_KILL_PRIV_def ATTR_MODE_def)
  then show ?thesis by (simp add: bit.conj_disj_distrib2)
qed

text \<open>
  C5 (as the code has it). When a request changes the owner or the group of an
  object that is not a directory: if the request also changes the mode, the
  set-user-ID bit of the new mode is cleared, and the set-group-ID bit is cleared
  when the requested mode has group-execute and kept as requested when it has
  not; if the request does not change the mode, the mode field is left alone and
  both \<open>ATTR_KILL_SUID\<close> and \<open>ATTR_KILL_SGID\<close> are set for the backend.
\<close>

theorem chown_revokes_privilege_bits:
  assumes "\<not> S_ISDIR (i_mode inode)"
    and "(ia_valid attrs AND ATTR_UID \<noteq> 0 \<and> ia_uid attrs \<noteq> i_uid inode) \<or>
         (ia_valid attrs AND ATTR_GID \<noteq> 0 \<and> ia_gid attrs \<noteq> i_gid inode)"
  shows "(ia_valid attrs AND ATTR_MODE \<noteq> 0 \<longrightarrow>
            ia_mode (smb_check_attrs inode attrs) AND S_ISUID = 0 \<and>
            (ia_mode attrs AND S_IXGRP \<noteq> 0 \<longrightarrow>
               ia_mode (smb_check_attrs inode attrs) AND S_ISGID = 0) \<and>
            (ia_mode attrs AND S_IXGRP = 0 \<longrightarrow>
               ia_mode (smb_check_attrs inode attrs) AND S_ISGID = ia_mode attrs AND S_ISGID)) \<and>
         (ia_valid attrs AND ATTR_MODE = 0 \<longrightarrow>
            ia_mode (smb_check_attrs inode attrs) = ia_mode attrs \<and>
            ia_valid (smb_check_attrs inode attrs) AND ATTR_KILL_SUID \<noteq> 0 \<and>
            ia_valid (smb_check_attrs inode attrs) AND ATTR_KILL_SGID \<noteq> 0)"
proof (intro conjI impI)
  assume m: "ia_valid attrs AND ATTR_MODE \<noteq> 0"
  show "ia_mode (smb_check_attrs inode attrs) AND S_ISUID = 0"
    using assms m
    by (auto simp: smb_check_attrs_def Let_def or_priv_mode_bit and_not_self suid_stays_cleared)
  show "ia_mode (smb_check_attrs inode attrs) AND S_ISGID = 0"
    if "ia_mode attrs AND S_IXGRP \<noteq> 0"
    using assms m that
    by (auto simp: smb_check_attrs_def Let_def or_priv_mode_bit and_not_self sanitized_mode_xgrp)
  show "ia_mode (smb_check_attrs inode attrs) AND S_ISGID = ia_mode attrs AND S_ISGID"
    if "ia_mode attrs AND S_IXGRP = 0"
    using assms m that
    by (auto simp: smb_check_attrs_def Let_def or_priv_mode_bit sanitized_mode_xgrp
        sanitized_mode_sgid)
next
  assume m: "ia_valid attrs AND ATTR_MODE = 0"
  show "ia_mode (smb_check_attrs inode attrs) = ia_mode attrs"
    using assms m by (auto simp: smb_check_attrs_def Let_def or_priv_mode_bit)
  show "ia_valid (smb_check_attrs inode attrs) AND ATTR_KILL_SUID \<noteq> 0"
    using assms m by (auto simp: smb_check_attrs_def Let_def or_priv_mode_bit kill_bits_marked)
  show "ia_valid (smb_check_attrs inode attrs) AND ATTR_KILL_SGID \<noteq> 0"
    using assms m by (auto simp: smb_check_attrs_def Let_def or_priv_mode_bit kill_bits_marked)
qed

theorem chown_revokes_privilege_bits_witness:
  "\<not> S_ISDIR (i_mode chown_inode) \<and>
   ia_valid chown_with_mode AND ATTR_UID \<noteq> 0 \<and> ia_uid chown_with_mode \<noteq> i_uid chown_inode \<and>
   ia_valid chown_with_mode AND ATTR_MODE \<noteq> 0 \<and> ia_mode chown_with_mode AND S_IXGRP \<noteq> 0 \<and>
   ia_mode (smb_check_attrs chown_inode chown_with_mode) AND S_ISUID = 0 \<and>
   ia_mode (smb_check_attrs chown_inode chown_with_mode) AND S_ISGID = 0 \<and>
   ia_valid chown_only AND ATTR_GID \<noteq> 0 \<and> ia_gid chown_only \<noteq> i_gid chown_inode \<and>
   ia_valid chown_only AND ATTR_MODE = 0 \<and>
   ia_mode (smb_check_attrs chown_inode chown_only) = ia_mode chown_only \<and>
   ia_valid (smb_check_attrs chown_inode chown_only) AND ATTR_KILL_SUID \<noteq> 0 \<and>
   ia_valid (smb_check_attrs chown_inode chown_only) AND ATTR_KILL_SGID \<noteq> 0"
proof -
  have d: "\<not> S_ISDIR (i_mode chown_inode)"
    by (simp add: chown_inode_def S_ISDIR_def S_IFMT_def S_IFDIR_def)
  have o1: "(ia_valid chown_with_mode AND ATTR_UID \<noteq> 0 \<and>
             ia_uid chown_with_mode \<noteq> i_uid chown_inode) \<or>
            (ia_valid chown_with_mode AND ATTR_GID \<noteq> 0 \<and>
             ia_gid chown_with_mode \<noteq> i_gid chown_inode)"
    by (simp add: chown_with_mode_def chown_inode_def ATTR_UID_def ATTR_MODE_def)
  have o2: "(ia_valid chown_only AND ATTR_UID \<noteq> 0 \<and> ia_uid chown_only \<noteq> i_uid chown_inode) \<or>
            (ia_valid chown_only AND ATTR_GID \<noteq> 0 \<and> ia_gid chown_only \<noteq> i_gid chown_inode)"
    by (simp add: chown_only_def chown_inode_def ATTR_GID_def)
  have m1: "ia_valid chown_with_mode AND ATTR_MODE \<noteq> 0"
    and x1: "ia_mode chown_with_mode AND S_IXGRP \<noteq> 0"
    and u1: "ia_valid chown_with_mode AND ATTR_UID \<noteq> 0"
    and n1: "ia_uid chown_with_mode \<noteq> i_uid chown_inode"
    by (simp_all add: chown_with_mode_def chown_inode_def ATTR_UID_def ATTR_MODE_def S_IXGRP_def)
  have m2: "ia_valid chown_only AND ATTR_MODE = 0"
    and g2: "ia_valid chown_only AND ATTR_GID \<noteq> 0"
    and n2: "ia_gid chown_only \<noteq> i_gid chown_inode"
    by (simp_all add: chown_only_def chown_inode_def ATTR_GID_def ATTR_MODE_def)
  from chown_revokes_privilege_bits [OF d o1] m1 x1
  have a: "ia_mode (smb_check_attrs chown_inode chown_with_mode) AND S_ISUID = 0 \<and>
           ia_mode (smb_check_attrs chown_inode chown_with_mode) AND S_ISGID = 0"
    by simp
  from chown_revokes_privilege_bits [OF d o2] m2
  have b: "ia_mode (smb_check_attrs chown_inode chown_only) = ia_mode chown_only \<and>
   ia_valid (smb_check_attrs chown_inode chown_only) AND ATTR_KILL_SUID \<noteq> 0 \<and>
   ia_valid (smb_check_attrs chown_inode chown_only) AND ATTR_KILL_SGID \<noteq> 0"
    by simp
  from d m1 x1 u1 n1 m2 g2 n2 a b show ?thesis by simp
qed

text \<open>
  The file has mode 0100770 (group-execute set); the request changes the owner
  and sets the mode 06700. The sanitized mode still has the set-group-ID bit, and
  \<open>ATTR_KILL_SGID\<close> is not set.
\<close>

theorem chown_keeps_sgid_counterexample:
  "\<not> S_ISDIR (i_mode chown_inode) \<and> i_mode chown_inode AND S_IXGRP \<noteq> 0 \<and>
   ia_valid chown_keep_sgid AND ATTR_UID \<noteq> 0 \<and> ia_uid chown_keep_sgid \<noteq> i_uid chown_inode \<and>
   ia_mode (smb_check_attrs chown_inode chown_keep_sgid) AND S_ISGID \<noteq> 0 \<and>
   ia_valid (smb_check_attrs chown_inode chown_keep_sgid) AND ATTR_KILL_SGID = 0"
  by (simp add: smb_check_attrs_def Let_def chown_inode_def chown_keep_sgid_def S_ISDIR_def
      S_IFMT_def S_IFDIR_def S_IXGRP_def S_ISGID_def S_ISUID_def S_IALLUGO_def ATTR_UID_def
      ATTR_GID_def ATTR_MODE_def ATTR_KILL_PRIV_def ATTR_KILL_SGID_def ATTR_KILL_SUID_def)

lemma check_attrs_size: "ia_size (smb_check_attrs inode attrs) = ia_size attrs"
  by (simp add: smb_check_attrs_def Let_def)

lemma or_and_nonzero: "(v :: 32 word) AND s \<noteq> 0 \<Longrightarrow> (v OR k) AND s \<noteq> 0"
  by (simp add: bit.conj_disj_distrib2 or_eq_0_iff)

lemma check_attrs_keeps_size_bit:
  "ia_valid attrs AND ATTR_SIZE \<noteq> 0 \<Longrightarrow>
     ia_valid (smb_check_attrs inode attrs) AND ATTR_SIZE \<noteq> 0"
  by (simp add: smb_check_attrs_def Let_def or_and_nonzero)

lemma drop_mode_keeps_size_bit:
  "(v :: 32 word) AND ATTR_SIZE \<noteq> 0 \<Longrightarrow> (v AND NOT ATTR_MODE) AND ATTR_SIZE \<noteq> 0"
proof -
  have "NOT ATTR_MODE AND ATTR_SIZE = ATTR_SIZE"
    by (simp add: ATTR_MODE_def ATTR_SIZE_def)
  then have "(v AND NOT ATTR_MODE) AND ATTR_SIZE = v AND ATTR_SIZE"
    by (simp add: and.assoc)
  then show "v AND ATTR_SIZE \<noteq> 0 \<Longrightarrow> (v AND NOT ATTR_MODE) AND ATTR_SIZE \<noteq> 0"
    by simp
qed

text \<open>
  C6. When the request changes the size and the validation of the size change
  fails (write access is refused, or the check of the mandatory locks refuses the
  truncation), setattr returns that error, the backend is never asked to change
  an attribute and the filesystem is as before.
\<close>

theorem setattr_size_validation_aborts:
  assumes "setattr_lookup K fs server name fid = Inr (dentry, pathopt, tr0)"
    and "d_inode K fs dentry = Some inode"
    and "ia_valid attrs AND ATTR_SIZE \<noteq> 0"
    and "get_write_access K fs inode \<noteq> 0 \<or>
         locks_verify_truncate K fs inode (ia_size attrs) \<noteq> 0"
  shows "\<exists>attrs' tr.
           smb_vfs_setattr K fs server name fid attrs =
             Some (if get_write_access K fs inode \<noteq> 0 then get_write_access K fs inode
                   else locks_verify_truncate K fs inode (ia_size attrs), attrs', fs, tr) \<and>
           \<not> list_ex is_notify_change tr \<and> \<not> list_ex is_notify_change tr0"
proof -
  define attrs1 where
    "attrs1 = (if S_ISLNK (i_mode inode)
               then attrs\<lparr>ia_valid := ia_valid attrs AND NOT ATTR_MODE\<rparr> else attrs)"
  have size1: "ia_valid attrs1 AND ATTR_SIZE \<noteq> 0"
    using assms(3) by (simp add: attrs1_def drop_mode_keeps_size_bit)
  then have nz: "ia_valid attrs1 \<noteq> 0" by auto
  have size2: "ia_valid (smb_check_attrs inode attrs1) AND ATTR_SIZE \<noteq> 0"
    using size1 by (rule check_attrs_keeps_size_bit)
  have sz: "ia_size (smb_check_attrs inode attrs1) = ia_size attrs"
    by (simp add: check_attrs_size attrs1_def)
  have tr0: "\<not> list_ex is_notify_change tr0"
    using assms(1)
    by (auto simp: setattr_lookup_def split: option.splits sum.splits)
  have out: "\<not> list_ex is_notify_change (setattr_out pathopt)"
    by (simp add: setattr_out_def split: option.splits)
  show ?thesis
    using assms(1,2,4) nz size2 sz tr0 out
    by (auto simp: smb_vfs_setattr_def Let_def attrs1_def [symmetric])
qed

theorem setattr_size_validation_aborts_witness:
  "setattr_lookup (demo_env True) demo_fs0 1 (Some ''/a/f'') 0 =
     Inr (14, Some \<lparr>p_mnt = 0, p_dentry = 14\<rparr>,
          [KernPath ''/a/f'' 0 (Inr \<lparr>p_mnt = 0, p_dentry = 14\<rparr>)]) \<and>
   ia_valid truncate_request AND ATTR_SIZE \<noteq> 0 \<and>
   map_option (\<lambda>i. locks_verify_truncate (demo_env True) demo_fs0 i
                      (ia_size truncate_request))
     (d_inode (demo_env True) demo_fs0 14) = Some (- EAGAIN) \<and>
   (\<exists>attrs' tr.
      smb_vfs_setattr (demo_env True) demo_fs0 1 (Some ''/a/f'') 0 truncate_request =
        Some (- EAGAIN, attrs', demo_fs0, tr) \<and>
      \<not> list_ex is_notify_change tr)"
proof -
  have l: "setattr_lookup (demo_env True) demo_fs0 1 (Some ''/a/f'') 0 =
     Inr (14, Some \<lparr>p_mnt = 0, p_dentry = 14\<rparr>,
          [KernPath ''/a/f'' 0 (Inr \<lparr>p_mnt = 0, p_dentry = 14\<rparr>)])"
    by (simp add: setattr_lookup_def demo_defs const_defs)
  have i: "d_inode (demo_env True) demo_fs0 14 =
             Some \<lparr>i_ino = 14, i_mode = 0x81F8, i_size = 100, i_uid = 1000, i_gid = 1000,
                    i_flock = [demo_lock]\<rparr>"
    by (simp add: demo_env_def demo_d_inode_def demo_fs0_def)
  have v: "ia_valid truncate_request AND ATTR_SIZE \<noteq> 0"
    by (simp add: truncate_request_def ATTR_SIZE_def ATTR_MODE_def)
  have f: "get_write_access (demo_env True) demo_fs0
             \<lparr>i_ino = 14, i_mode = 0x81F8, i_size = 100, i_uid = 1000, i_gid = 1000,
               i_flock = [demo_lock]\<rparr> \<noteq> 0 \<or>
           locks_verify_truncate (demo_env True) demo_fs0
             \<lparr>i_ino = 14, i_mode = 0x81F8, i_size = 100, i_uid = 1000, i_gid = 1000,
               i_flock = [demo_lock]\<rparr> (ia_size truncate_request) \<noteq> 0"
    by (simp add: demo_env_def EAGAIN_def)
  from setattr_size_validation_aborts [OF l i v f] l v i
  show ?thesis
    by (simp add: demo_env_def EAGAIN_def)
qed

subsection \<open>Read\<close>



text \<open>
  C10. A read of zero bytes returns 0 at once, for every session and every file
  identifier, known or not: the handle is not resolved, nothing is checked,
  allocated or read (no call is made), buffer, position and filesystem are as before.
\<close>

theorem read_zero_count:
  "smb_vfs_read K fs server fid buf 0 pos = Some (0, buf, pos, fs, [])"
  by (simp add: smb_vfs_read_def)

theorem read_zero_count_witness:
  "get_id_from_fidtable (demo_env True) 1 999 = None \<and>
   smb_vfs_read (demo_env True) demo_fs0 1 999 None 0 0 = Some (0, None, 0, demo_fs0, [])"
  using read_zero_count [of "demo_env True" demo_fs0 1 999 None 0]
  by (simp add: demo_env_def demo_fidtable_def)

subsection \<open>Extended attributes\<close>

text \<open>
  C9. When the stored value of the attribute is longer than the caller's buffer,
  getxattr returns \<open>-ENOMEM\<close>; the only call made is the query of the length, and
  the caller's buffer is as before.
\<close>

theorem getxattr_too_small:
  assumes "fst (vfs_getxattr K fs dentry xattr_name None 0) = len"
    and "uint buf_len < len"
  shows "smb_vfs_getxattr K fs dentry xattr_name xattr_buf buf_len =
           (- ENOMEM, xattr_buf, [VfsGetxattr dentry xattr_name None 0])"
proof -
  have "0 \<le> uint buf_len" by simp
  with assms have "\<not> len \<le> 0" by linarith
  with assms show ?thesis by (simp add: smb_vfs_getxattr_def Let_def)
qed

theorem getxattr_too_small_witness:
  "fst (vfs_getxattr (demo_env True) demo_fs0 14 ''user.tag'' None 0) = 8 \<and>
   uint (4 :: 32 word) < 8 \<and>
   smb_vfs_getxattr (demo_env True) demo_fs0 14 ''user.tag'' (Some [0, 0, 0, 0]) 4 =
     (- ENOMEM, Some [0, 0, 0, 0], [VfsGetxattr 14 ''user.tag'' None 0])"
  using getxattr_too_small [where K = "demo_env True" and fs = demo_fs0 and dentry = 14
      and xattr_name = "''user.tag''" and len = 8 and buf_len = 4
      and xattr_buf = "Some [0, 0, 0, 0]"]
  by (simp add: demo_env_def demo_vfs_getxattr_def)

end
